(* ===== verification/Prelude.thy ===== *)
theory Prelude
  imports Complex_Main
begin

text \<open>
  Shared vocabulary of the development: Python strings as lists of Unicode code points,
  the Python exceptions that the program raises or catches, Python list indexing with
  its \<open>IndexError\<close>, and the generic list and sum lemmas the component theories share.
  The collection \<open>py_simps\<close> gathers the evaluation rules of the modelled Python
  primitives; component proofs pass it to \<open>simp\<close>.
\<close>

named_theorems py_simps "evaluation rules of the modelled Python primitives"

section \<open>Python strings\<close>

text \<open>
  A Python \<open>str\<close> is a sequence of code points and \<open>len\<close> counts code points, so
  a string is a \<open>nat list\<close> (HOL's \<open>char\<close> is a byte and would count UTF-8 bytes).
  \<open>py\<close> turns an ASCII literal of the source into such a string.
\<close>

type_synonym pystr = "nat list"

definition py :: "string \<Rightarrow> pystr" where
  "py s = map of_char s"

section \<open>Exceptions\<close>

text \<open>
  The exceptions of the program's control flow. \<open>ModelError\<close> is any exception that
  derives from \<open>Exception\<close> and is raised inside the external model object (its
  \<open>predict\<close>, \<open>predict_proba\<close> or its deserialisation); \<open>KeyboardInterrupt\<close> and
  \<open>SystemExit\<close> derive from \<open>BaseException\<close> only, so \<open>except Exception\<close> does not
  catch them.
\<close>

datatype exn =
    AttributeError
  | IndexError
  | ValueError
  | FileNotFoundError pystr
  | IsADirectoryError
  | RequestEntityTooLarge
  | ModelError pystr
  | KeyboardInterrupt
  | SystemExit

fun is_Exception :: "exn \<Rightarrow> bool" where
  "is_Exception KeyboardInterrupt = False"
| "is_Exception SystemExit = False"
| "is_Exception _ = True"

text \<open>
  Sequencing of two Python statements: an exception raised by the first propagates and
  the second is not run.
\<close>

definition bind_exn :: "exn + 'a \<Rightarrow> ('a \<Rightarrow> exn + 'b) \<Rightarrow> exn + 'b" where
  "bind_exn r f = (case r of Inl e \<Rightarrow> Inl e | Inr a \<Rightarrow> f a)"

text \<open>\<open>try: ... except Exception: ...\<close>: an \<open>Exception\<close> gives the fallback value.\<close>

definition catch_Exception :: "exn + 'a \<Rightarrow> 'a \<Rightarrow> exn + 'a" where
  "catch_Exception r d = (case r of Inl e \<Rightarrow> if is_Exception e then Inr d else Inl e | Inr a \<Rightarrow> Inr a)"

section \<open>List indexing\<close>

text \<open>\<open>xs[i]\<close>: a negative index counts from the end; out of range raises.\<close>

definition py_index :: "'a list \<Rightarrow> int \<Rightarrow> exn + 'a" where
  "py_index xs i =
     (let k = (if 0 \<le> i then i else i + int (length xs))
      in if k < 0 \<or> int (length xs) \<le> k then Inl IndexError else Inr (xs ! nat k))"

section \<open>Generic lemmas\<close>

lemma py_Nil [simp, py_simps]: "py [] = []"
  by (simp add: py_def)

lemma py_Cons [simp, py_simps]: "py (c # s) = of_char c # py s"
  by (simp add: py_def)

lemma length_py [simp]: "length (py s) = length s"
  by (simp add: py_def)

lemma py_eq_Nil_iff [simp]: "py s = [] \<longleftrightarrow> s = []"
  by (simp add: py_def)

lemma py_inj: "py s = py t \<longleftrightarrow> s = t"
  by (simp add: py_def inj_of_char)

lemma bind_exn_Inl [simp, py_simps]: "bind_exn (Inl e) f = Inl e"
  by (simp add: bind_exn_def)

lemma bind_exn_Inr [simp, py_simps]: "bind_exn (Inr a) f = f a"
  by (simp add: bind_exn_def)

lemma bind_exn_eq_Inr:
  "bind_exn r f = Inr b \<longleftrightarrow> (\<exists>a. r = Inr a \<and> f a = Inr b)"
  by (cases r) auto

lemma bind_exn_eq_Inl:
  "bind_exn r f = Inl e \<longleftrightarrow> r = Inl e \<or> (\<exists>a. r = Inr a \<and> f a = Inl e)"
  by (cases r) auto

lemma catch_Exception_Inr [simp, py_simps]: "catch_Exception (Inr a) d = Inr a"
  by (simp add: catch_Exception_def)

lemma catch_Exception_Inl [simp, py_simps]:
  "catch_Exception (Inl e) d = (if is_Exception e then Inr d else Inl e)"
  by (simp add: catch_Exception_def)

lemma py_index_0 [simp, py_simps]: "py_index (x # xs) 0 = Inr x"
  by (simp add: py_index_def)

lemma py_index_1 [simp, py_simps]: "py_index (x # y # xs) 1 = Inr y"
  by (simp add: py_index_def)

lemma py_index_Nil [simp, py_simps]: "py_index [] i = Inl IndexError"
  by (simp add: py_index_def)

lemma py_index_single_1 [simp, py_simps]: "py_index [x] 1 = Inl IndexError"
  by (simp add: py_index_def)

lemma py_index_Inr_mem: "py_index xs i = Inr x \<Longrightarrow> x \<in> set xs"
  by (auto simp: py_index_def Let_def split: if_splits)

lemma py_index_nonneg:
  "0 \<le> i \<Longrightarrow> py_index xs i = (if nat i < length xs then Inr (xs ! nat i) else Inl IndexError)"
  by (auto simp: py_index_def Let_def)

lemma py_index_Inl: "py_index xs i = Inl e \<Longrightarrow> e = IndexError"
  by (auto simp: py_index_def Let_def split: if_splits)

text \<open>Dropping a prefix whose elements all satisfy the predicate, and stopping at a head that does not.\<close>

lemma dropWhile_all_append:
  "\<forall>x\<in>set xs. P x \<Longrightarrow> dropWhile P (xs @ ys) = dropWhile P ys"
  by (induction xs) auto

lemma dropWhile_stop:
  "xs \<noteq> [] \<Longrightarrow> \<not> P (hd xs) \<Longrightarrow> dropWhile P xs = xs"
  by (cases xs) auto

lemma dropWhile_rev_stop:
  "xs \<noteq> [] \<Longrightarrow> \<not> P (last xs) \<Longrightarrow> dropWhile P (rev xs) = rev xs"
  by (rule dropWhile_stop) (auto simp: hd_rev)

lemma dropWhile_all_iff:
  "(\<forall>x\<in>set (dropWhile P xs). P x) \<longleftrightarrow> (\<forall>x\<in>set xs. P x)"
  by (induction xs) auto

lemma dropWhile_prefix_split:
  "\<exists>pre. xs = pre @ dropWhile P xs \<and> (\<forall>x\<in>set pre. P x)"
  by (metis takeWhile_dropWhile_id set_takeWhileD)

end
