(* ===== verification/PyStr.thy ===== *)
theory PyStr
  imports Prelude
begin

text \<open>
  The Python string operations the program relies on: \<open>str.strip()\<close> with no
  argument (line 40 of \<open>src/app.py\<close>), which removes the code points for which
  \<open>str.isspace\<close> holds, and the base-10 parser behind \<open>int(s)\<close> on a string
  (line 68, when the model's label is a string). Both are CPython's behaviour on
  code-point lists; the lemmas characterise \<open>strip\<close> completely and prove that
  \<open>int\<close> reads back what \<open>str\<close> prints.
\<close>

section \<open>Whitespace\<close>

text \<open>
  CPython's \<open>Py_UNICODE_ISSPACE\<close>: the code points of bidirectional class WS, B or S
  or of category Zs.
\<close>

definition py_isspace :: "nat \<Rightarrow> bool" where
  "py_isspace c \<longleftrightarrow>
     (0x09 \<le> c \<and> c \<le> 0x0D) \<or> (0x1C \<le> c \<and> c \<le> 0x20) \<or> c = 0x85 \<or> c = 0xA0 \<or>
     c = 0x1680 \<or> (0x2000 \<le> c \<and> c \<le> 0x200A) \<or> c = 0x2028 \<or> c = 0x2029 \<or>
     c = 0x202F \<or> c = 0x205F \<or> c = 0x3000"

section \<open>strip\<close>

definition py_lstrip :: "pystr \<Rightarrow> pystr" where
  "py_lstrip s = dropWhile py_isspace s"

definition py_rstrip :: "pystr \<Rightarrow> pystr" where
  "py_rstrip s = rev (dropWhile py_isspace (rev s))"

definition py_strip :: "pystr \<Rightarrow> pystr" where
  "py_strip s = py_rstrip (py_lstrip s)"

text \<open>A string is stripped when it is empty or begins and ends with a non-space.\<close>

definition stripped :: "pystr \<Rightarrow> bool" where
  "stripped m \<longleftrightarrow> m = [] \<or> (\<not> py_isspace (hd m) \<and> \<not> py_isspace (last m))"

definition all_space :: "pystr \<Rightarrow> bool" where
  "all_space s \<longleftrightarrow> (\<forall>c\<in>set s. py_isspace c)"

section \<open>int() on a string\<close>

text \<open>
  \<open>int(s)\<close> in base 10: surrounding whitespace is skipped, then an optional sign and
  one or more decimal digits, single underscores allowed between digits. Only ASCII
  digits are read as digits here (CPython also accepts the other Unicode decimal
  digits).
\<close>

definition py_digit :: "nat \<Rightarrow> bool" where
  "py_digit c \<longleftrightarrow> 48 \<le> c \<and> c \<le> 57"

definition digit_val :: "nat \<Rightarrow> int" where
  "digit_val c = int c - 48"

fun digits_from :: "int \<Rightarrow> pystr \<Rightarrow> int option" where
  "digits_from acc [] = Some acc"
| "digits_from acc (c # cs) =
     (if py_digit c then digits_from (10 * acc + digit_val c) cs
      else if c = 95 then
        (case cs of
          d # ds \<Rightarrow> if py_digit d then digits_from (10 * acc + digit_val d) ds else None
        | [] \<Rightarrow> None)
      else None)"

definition py_int_of_str :: "pystr \<Rightarrow> exn + int" where
  "py_int_of_str s =
     (let t = py_strip s;
          (sg, u) = (case t of
                       c # r \<Rightarrow> if c = 43 then (1, r) else if c = 45 then (-1, r) else (1, t)
                     | [] \<Rightarrow> (1, []))
      in case u of
           d # ds \<Rightarrow>
             if py_digit d then
               (case digits_from (digit_val d) ds of
                  Some v \<Rightarrow> Inr (sg * v)
                | None \<Rightarrow> Inl ValueError)
             else Inl ValueError
         | [] \<Rightarrow> Inl ValueError)"

text \<open>\<open>str(n)\<close> for a Python int: the reference printer the parser is checked against.\<close>

fun dec_digits :: "nat \<Rightarrow> pystr" where
  "dec_digits n = (if n < 10 then [48 + n] else dec_digits (n div 10) @ [48 + n mod 10])"

definition py_str_int :: "int \<Rightarrow> pystr" where
  "py_str_int i = (if i < 0 then 45 # dec_digits (nat (- i)) else dec_digits (nat i))"

text \<open>The value of a run of digits, one digit at a time.\<close>

definition digit_step :: "int \<Rightarrow> nat \<Rightarrow> int" where
  "digit_step a c = 10 * a + digit_val c"

declare dec_digits.simps [simp del]

section \<open>strip: decomposition, borders, uniqueness\<close>

lemma py_strip_eq: "py_strip s = rev (dropWhile py_isspace (rev (dropWhile py_isspace s)))"
  by (simp add: py_strip_def py_rstrip_def py_lstrip_def)

lemma py_strip_split:
  "\<exists>pre suf. s = pre @ py_strip s @ suf \<and> all_space pre \<and> all_space suf"
proof -
  obtain pre where pre: "s = pre @ dropWhile py_isspace s" "all_space pre"
    using dropWhile_prefix_split [of s py_isspace] by (auto simp: all_space_def)
  obtain pr where pr: "rev (dropWhile py_isspace s) = pr @ dropWhile py_isspace (rev (dropWhile py_isspace s))"
    "all_space pr"
    using dropWhile_prefix_split [of "rev (dropWhile py_isspace s)" py_isspace] by (auto simp: all_space_def)
  have "dropWhile py_isspace s = py_strip s @ rev pr"
    using arg_cong [OF pr(1), of rev] by (simp add: py_strip_eq)
  with pre pr(2) have "s = pre @ py_strip s @ rev pr" "all_space (rev pr)"
    by (auto simp: all_space_def)
  with pre(2) show ?thesis by blast
qed

lemma py_strip_stripped: "stripped (py_strip s)"
proof (cases "py_strip s = []")
  case True
  then show ?thesis by (simp add: stripped_def)
next
  case False
  let ?l = "dropWhile py_isspace s"
  have rne: "dropWhile py_isspace (rev ?l) \<noteq> []"
    using False by (auto simp: py_strip_eq dropWhile_all_iff dest: set_dropWhileD)
  have last_ok: "\<not> py_isspace (last (py_strip s))"
    using hd_dropWhile [OF rne] by (simp add: py_strip_eq last_rev)
  have lne: "?l \<noteq> []" using False by (auto simp: py_strip_eq dest: set_dropWhileD)
  have hd_l: "\<not> py_isspace (hd ?l)" by (rule hd_dropWhile [OF lne])
  obtain pr where pr: "rev ?l = pr @ dropWhile py_isspace (rev ?l)" "all_space pr"
    using dropWhile_prefix_split [of "rev ?l" py_isspace] by (auto simp: all_space_def)
  have l_eq: "?l = py_strip s @ rev pr"
    using arg_cong [OF pr(1), of rev] by (simp add: py_strip_eq)
  have "hd (py_strip s) = hd ?l" using False l_eq by simp
  with hd_l last_ok show ?thesis by (simp add: stripped_def)
qed

lemma py_strip_unique:
  assumes "s = pre @ m @ suf" "all_space pre" "all_space suf" "stripped m"
  shows "py_strip s = m"
proof -
  have l: "dropWhile py_isspace s = dropWhile py_isspace (m @ suf)"
    using assms(1,2) by (simp add: dropWhile_all_append all_space_def)
  show ?thesis
  proof (cases "m = []")
    case True
    with l assms(3) show ?thesis
      by (simp add: py_strip_eq all_space_def dropWhile_all_iff)
  next
    case False
    with assms(4) have h: "\<not> py_isspace (hd m)" and t: "\<not> py_isspace (last m)"
      by (auto simp: stripped_def)
    have "dropWhile py_isspace (m @ suf) = m @ suf"
      using False h by (intro dropWhile_stop) auto
    moreover have "dropWhile py_isspace (rev suf @ rev m) = rev m"
      using assms(3) False t by (simp add: dropWhile_all_append all_space_def dropWhile_rev_stop)
    ultimately show ?thesis using l by (simp add: py_strip_eq)
  qed
qed

lemma py_strip_idem: "py_strip (py_strip s) = py_strip s"
  by (rule py_strip_unique [of _ "[]" _ "[]"]) (simp_all add: all_space_def py_strip_stripped)

lemma py_strip_Nil_iff: "py_strip s = [] \<longleftrightarrow> all_space s"
  by (simp add: py_strip_eq all_space_def dropWhile_all_iff)

lemma length_py_strip: "length (py_strip s) \<le> length s"
proof -
  obtain pre suf where "s = pre @ py_strip s @ suf"
    using py_strip_split [of s] by blast
  then have "length s = length pre + length (py_strip s) + length suf"
    by (metis length_append add.assoc)
  then show ?thesis by arith
qed

section \<open>int() reads back str()\<close>


lemma digits_from_all_digits:
  "list_all py_digit ds \<Longrightarrow> digits_from acc ds = Some (foldl digit_step acc ds)"
  by (induction ds arbitrary: acc) (auto simp: digit_step_def)

lemma dec_digits_digits: "list_all py_digit (dec_digits n)"
proof (induction n rule: dec_digits.induct)
  case (1 n)
  then show ?case by (subst dec_digits.simps) (auto simp: py_digit_def list_all_iff)
qed

lemma dec_digits_ne: "dec_digits n \<noteq> []"
  by (subst dec_digits.simps) simp

lemma foldl_dec_digits:
  "foldl digit_step acc (dec_digits n) = acc * 10 ^ length (dec_digits n) + int n"
proof (induction n arbitrary: acc rule: dec_digits.induct)
  case (1 n)
  show ?case
  proof (cases "n < 10")
    case True
    then show ?thesis by (subst (1 2) dec_digits.simps) (simp add: digit_step_def digit_val_def)
  next
    case False
    have "int n = 10 * int (n div 10) + int (n mod 10)"
      by (metis div_mult_mod_eq mult.commute of_nat_add of_nat_mult of_nat_numeral)
    moreover have "foldl digit_step acc (dec_digits (n div 10)) =
        acc * 10 ^ length (dec_digits (n div 10)) + int (n div 10)"
      using "1.IH" False by blast
    ultimately show ?thesis using False
      by (subst (1 2) dec_digits.simps) (simp add: digit_step_def digit_val_def algebra_simps)
  qed
qed

lemma py_digit_not_space: "py_digit c \<Longrightarrow> \<not> py_isspace c"
  by (simp add: py_digit_def py_isspace_def)

lemma py_str_int_stripped: "stripped (py_str_int i)"
proof -
  have d: "list_all py_digit (dec_digits n)" "dec_digits n \<noteq> []" for n
    by (rule dec_digits_digits, rule dec_digits_ne)
  have "\<not> py_isspace (last (dec_digits n))" "\<not> py_isspace (hd (dec_digits n))" for n
    using d [of n] by (auto simp: list_all_iff intro!: py_digit_not_space)
  then show ?thesis
    by (auto simp: stripped_def py_str_int_def py_isspace_def dec_digits_ne)
qed

lemma digits_from_dec_digits:
  "dec_digits n = d # ds \<Longrightarrow> py_digit d \<and> digits_from (digit_val d) ds = Some (int n)"
proof -
  assume eq: "dec_digits n = d # ds"
  have all: "list_all py_digit (d # ds)" using dec_digits_digits [of n] eq by simp
  have "foldl digit_step 0 (d # ds) = int n" using foldl_dec_digits [of 0 n] eq by simp
  then have "foldl digit_step (digit_val d) ds = int n" by (simp add: digit_step_def)
  with all show ?thesis by (simp add: digits_from_all_digits)
qed

lemma py_strip_py_str_int:
  "all_space pre \<Longrightarrow> all_space suf \<Longrightarrow> py_strip (pre @ py_str_int i @ suf) = py_str_int i"
  using py_strip_unique [of "pre @ py_str_int i @ suf" pre "py_str_int i" suf] py_str_int_stripped
  by simp

lemma py_int_of_str_py_str_int: "py_int_of_str (py_str_int i) = Inr i"
proof -
  have strip: "py_strip (py_str_int i) = py_str_int i"
    using py_strip_py_str_int [of "[]" "[]" i] by (simp add: all_space_def)
  obtain d ds where dd: "dec_digits (nat \<bar>i\<bar>) = d # ds"
    using dec_digits_ne by (metis list.exhaust)
  from digits_from_dec_digits [OF dd] have d: "py_digit d" "digits_from (digit_val d) ds = Some \<bar>i\<bar>"
    by simp_all
  have "d \<noteq> 43" "d \<noteq> 45" using d(1) by (auto simp: py_digit_def)
  with d dd show ?thesis
    unfolding py_int_of_str_def strip
    by (cases "i < 0") (auto simp: py_str_int_def)
qed

lemma py_int_of_str_strip: "py_int_of_str (py_strip s) = py_int_of_str s"
  by (simp add: py_int_of_str_def py_strip_idem)

lemma py_int_of_str_roundtrip:
  assumes "all_space pre" and "all_space suf"
  shows "py_int_of_str (pre @ py_str_int i @ suf) = Inr i"
proof -
  have "py_int_of_str (pre @ py_str_int i @ suf) = py_int_of_str (py_strip (pre @ py_str_int i @ suf))"
    by (simp add: py_int_of_str_strip)
  also have "\<dots> = py_int_of_str (py_str_int i)"
    using assms by (simp add: py_strip_py_str_int)
  finally show ?thesis by (simp add: py_int_of_str_py_str_int)
qed

end
