(* ===== verification/Json.thy ===== *)
theory Json
  imports PyStr
begin

text \<open>
  The Python values the program handles: what \<open>json.loads\<close> produces from a request
  body (\<open>None\<close>, \<open>bool\<close>, \<open>int\<close>, \<open>float\<close>, \<open>str\<close>, \<open>list\<close>, \<open>dict\<close>),
  and the result dictionaries \<open>_predict_one\<close> builds. A dictionary is the list of its
  key/value pairs in insertion order; \<open>json.loads\<close> keeps the last value of a repeated
  key, so lookup reads the last pair. Python truthiness (\<open>x or y\<close>), \<open>d.get(k, default)\<close>
  and \<open>s.strip()\<close> are defined on every value, with the \<open>AttributeError\<close> that a
  value without the method raises.
\<close>

datatype json =
    JNull
  | JBool bool
  | JInt int
  | JFloat real
  | JStr pystr
  | JList "json list"
  | JDict "(pystr \<times> json) list"

text \<open>\<open>bool(x)\<close>: \<open>None\<close>, \<open>False\<close>, zero and empty containers are false.\<close>

fun py_truthy :: "json \<Rightarrow> bool" where
  "py_truthy JNull = False"
| "py_truthy (JBool b) = b"
| "py_truthy (JInt i) = (i \<noteq> 0)"
| "py_truthy (JFloat r) = (r \<noteq> 0)"
| "py_truthy (JStr s) = (s \<noteq> [])"
| "py_truthy (JList xs) = (xs \<noteq> [])"
| "py_truthy (JDict kvs) = (kvs \<noteq> [])"

text \<open>\<open>x or y\<close>.\<close>

definition py_or :: "json \<Rightarrow> json \<Rightarrow> json" where
  "py_or x y = (if py_truthy x then x else y)"

text \<open>Key lookup in a dictionary: the value stored last for the key.\<close>

definition dict_lookup :: "(pystr \<times> json) list \<Rightarrow> pystr \<Rightarrow> json option" where
  "dict_lookup kvs k = map_of (rev kvs) k"

text \<open>\<open>x.get(k, default)\<close>: only a \<open>dict\<close> has the method.\<close>

fun py_get :: "json \<Rightarrow> pystr \<Rightarrow> json \<Rightarrow> exn + json" where
  "py_get (JDict kvs) k d = Inr (case dict_lookup kvs k of None \<Rightarrow> d | Some v \<Rightarrow> v)"
| "py_get _ k d = Inl AttributeError"

text \<open>\<open>x.strip()\<close>: only a \<open>str\<close> has the method.\<close>

fun py_strip_value :: "json \<Rightarrow> exn + pystr" where
  "py_strip_value (JStr s) = Inr (py_strip s)"
| "py_strip_value _ = Inl AttributeError"

text \<open>Whether a value is a \<open>str\<close> or a \<open>dict\<close> (\<open>isinstance\<close>).\<close>

fun is_str :: "json \<Rightarrow> bool" where
  "is_str (JStr _) = True"
| "is_str _ = False"

fun is_dict :: "json \<Rightarrow> bool" where
  "is_dict (JDict _) = True"
| "is_dict _ = False"

lemma py_or_truthy [simp]: "py_truthy x \<Longrightarrow> py_or x y = x"
  by (simp add: py_or_def)

lemma py_or_falsy [simp]: "\<not> py_truthy x \<Longrightarrow> py_or x y = y"
  by (simp add: py_or_def)

lemma dict_lookup_Nil [simp]: "dict_lookup [] k = None"
  by (simp add: dict_lookup_def)

lemma dict_lookup_snoc [simp]:
  "dict_lookup (kvs @ [(k', v)]) k = (if k = k' then Some v else dict_lookup kvs k)"
  by (simp add: dict_lookup_def)

lemma dict_lookup_Cons:
  "dict_lookup ((k', v) # kvs) k =
     (case dict_lookup kvs k of None \<Rightarrow> if k = k' then Some v else None | Some w \<Rightarrow> Some w)"
  by (simp add: dict_lookup_def map_of_append map_add_def split: option.splits)

lemma py_get_Inl: "py_get x k d = Inl e \<longleftrightarrow> \<not> is_dict x \<and> e = AttributeError"
  by (cases x) auto

lemma py_strip_value_Inl: "py_strip_value x = Inl e \<longleftrightarrow> \<not> is_str x \<and> e = AttributeError"
  by (cases x) auto

lemma py_get_not_dict: "\<not> is_dict x \<Longrightarrow> py_get x k d = Inl AttributeError"
  by (cases x) auto

lemma falsy_cases:
  "\<not> py_truthy x \<longleftrightarrow>
     x = JNull \<or> x = JBool False \<or> x = JInt 0 \<or> x = JFloat 0 \<or> x = JStr [] \<or> x = JList [] \<or> x = JDict []"
  by (cases x) auto

end
