(* ===== verification/Predictor.thy ===== *)
theory Predictor
  imports Json
begin

text \<open>
  The interface between the web service and the external model artifact (the scikit-learn
  pipeline that \<open>joblib.load\<close> returns). The service uses two capabilities of it:
  \<open>MODEL.predict(batch)\<close>, which returns one label per message, and the optional
  \<open>MODEL.predict_proba(batch)\<close>, one probability row per message, present only when
  \<open>hasattr(MODEL, "predict_proba")\<close>. Both may raise. The predictor is a record of
  these two functions, so every theorem about the service holds for every model; a
  label is a numpy scalar, converted by \<open>int(pred)\<close> on line 68 of
  \<open>src/app.py\<close>. This theory also models the probability block of lines 57-64 and
  proves its degradation to \<open>None\<close>.
\<close>

text \<open>A label as numpy returns it: an integer, float, boolean or string scalar.\<close>

datatype pred_val = PInt int | PFloat real | PBool bool | PStr pystr

text \<open>\<open>int(x)\<close>: floats are truncated toward zero, strings are parsed.\<close>

fun py_int :: "pred_val \<Rightarrow> exn + int" where
  "py_int (PInt i) = Inr i"
| "py_int (PFloat r) = Inr (if 0 \<le> r then \<lfloor>r\<rfloor> else \<lceil>r\<rceil>)"
| "py_int (PBool b) = Inr (if b then 1 else 0)"
| "py_int (PStr s) = py_int_of_str s"

record predictor =
  predict :: "pystr list \<Rightarrow> exn + pred_val list"
  predict_proba :: "(pystr list \<Rightarrow> exn + real list list) option"

text \<open>
  Lines 57-64: \<open>None\<close> when the model has no \<open>predict_proba\<close>; otherwise
  \<open>float(MODEL.predict_proba([message])[0][1])\<close>, any \<open>Exception\<close> raised on
  the way (by the model, or an \<open>IndexError\<close> of either subscript) giving \<open>None\<close>.
\<close>

definition spam_probability :: "predictor \<Rightarrow> pystr \<Rightarrow> exn + real option" where
  "spam_probability M message =
     (case predict_proba M of
        None \<Rightarrow> Inr None
      | Some proba_fn \<Rightarrow>
          catch_Exception
            (bind_exn (proba_fn [message]) (\<lambda>rows.
             bind_exn (py_index rows 0) (\<lambda>proba.
             bind_exn (py_index proba 1) (\<lambda>p. Inr (Some p)))))
            None)"

text \<open>What a model does for one message: the label it predicts and the probability
  row it gives, when neither call raises.\<close>

definition classifies :: "predictor \<Rightarrow> pystr \<Rightarrow> int \<Rightarrow> bool" where
  "classifies M m c \<longleftrightarrow> (\<exists>v vs. predict M [m] = Inr (v # vs) \<and> py_int v = Inr c)"

text \<open>Rows of probabilities, every entry in \<open>[0, 1]\<close>.\<close>

definition unit_interval_rows :: "real list list \<Rightarrow> bool" where
  "unit_interval_rows rows \<longleftrightarrow> list_all (list_all (\<lambda>x. 0 \<le> x \<and> x \<le> 1)) rows"

text \<open>Sample models: one whose \<open>predict_proba\<close> raises, one with a
  well-formed row, and one whose row is not a probability distribution.\<close>

definition proba_raises :: predictor where
  "proba_raises = \<lparr>predict = (\<lambda>ms. Inr (map (\<lambda>_. PInt 0) ms)),
                    predict_proba = Some (\<lambda>ms. Inl (ModelError (py ''NotFittedError'')))\<rparr>"

definition calibrated :: predictor where
  "calibrated = \<lparr>predict = (\<lambda>ms. Inr (map (\<lambda>_. PInt 1) ms)),
                  predict_proba = Some (\<lambda>ms. Inr (map (\<lambda>_. [1/4, 3/4]) ms))\<rparr>"

definition uncalibrated :: predictor where
  "uncalibrated = \<lparr>predict = (\<lambda>ms. Inr (map (\<lambda>_. PInt 1) ms)),
                    predict_proba = Some (\<lambda>ms. Inr (map (\<lambda>_. [-1/2, 3/2]) ms))\<rparr>"

lemma py_int_Inl: "py_int v = Inl e \<Longrightarrow> e = ValueError"
  by (cases v) (auto simp: py_int_of_str_def Let_def split: list.splits if_splits option.splits prod.splits)

lemma spam_probability_no_proba [simp]:
  "predict_proba M = None \<Longrightarrow> spam_probability M m = Inr None"
  by (simp add: spam_probability_def)

lemma spam_probability_cases:
  "spam_probability M m = Inr None \<or>
   (\<exists>f rows proba p. predict_proba M = Some f \<and> f [m] = Inr rows \<and>
      py_index rows 0 = Inr proba \<and> py_index proba 1 = Inr p \<and>
      spam_probability M m = Inr (Some p)) \<or>
   (\<exists>f e. predict_proba M = Some f \<and> f [m] = Inl e \<and> \<not> is_Exception e \<and>
      spam_probability M m = Inl e)"
  by (auto simp: spam_probability_def bind_exn_def catch_Exception_def
           split: option.splits sum.splits dest: py_index_Inl)


section \<open>Properties of the probability block\<close>

text \<open>C31. The probability is \<open>None\<close>, and the request still succeeds, when the model
  has no \<open>predict_proba\<close>, when the call raises an \<open>Exception\<close>, and when its
  result has no first row or no second column: the failure degrades, it does not fail
  the request (section 4.2).\<close>

theorem spam_probability_degrades:
  assumes "predict_proba M = None \<or>
           (\<exists>f e. predict_proba M = Some f \<and> f [m] = Inl e \<and> is_Exception e) \<or>
           (\<exists>f rows. predict_proba M = Some f \<and> f [m] = Inr rows \<and> (rows = [] \<or> length (hd rows) < 2))"
  shows "spam_probability M m = Inr None"
  using assms
  by (auto simp: spam_probability_def py_index_def Let_def neq_Nil_conv)

theorem spam_probability_degrades_witness:
  "(\<exists>f e. predict_proba proba_raises = Some f \<and> f [py ''hi''] = Inl e \<and> is_Exception e) \<and>
   spam_probability proba_raises (py ''hi'') = Inr None"
proof -
  have e: "\<exists>f e. predict_proba proba_raises = Some f \<and> f [py ''hi''] = Inl e \<and> is_Exception e"
    by (simp add: proba_raises_def)
  then have h: "predict_proba proba_raises = None \<or>
           (\<exists>f e. predict_proba proba_raises = Some f \<and> f [py ''hi''] = Inl e \<and> is_Exception e) \<or>
           (\<exists>f rows. predict_proba proba_raises = Some f \<and> f [py ''hi''] = Inr rows \<and>
              (rows = [] \<or> length (hd rows) < 2))"
    by blast
  show ?thesis using e spam_probability_degrades [OF h] by simp
qed

text \<open>C32. When the model gives a first row with at least two columns, the reported
  probability is the entry at index 1 of that row, as it is, whatever the classes of
  the model (the ordering assumption of section 9 of the specification).\<close>

theorem spam_probability_second_column:
  assumes "predict_proba M = Some f" and "f [m] = Inr (row # rows)" and "2 \<le> length row"
  shows "spam_probability M m = Inr (Some (row ! 1))"
  using assms by (simp add: spam_probability_def py_index_def)

theorem spam_probability_second_column_witness:
  "predict_proba uncalibrated = Some (\<lambda>ms. Inr (map (\<lambda>_. [-1/2, 3/2]) ms)) \<and>
   spam_probability uncalibrated (py ''hi'') = Inr (Some (3/2))"
proof -
  have h1: "predict_proba uncalibrated = Some (\<lambda>ms. Inr (map (\<lambda>_. [-1/2, 3/2]) ms))"
    by (simp add: uncalibrated_def)
  have h2: "(\<lambda>ms. Inr (map (\<lambda>_. [-1/2, 3/2 :: real]) ms) :: exn + real list list) [py ''hi''] =
            Inr ([-1/2, 3/2] # [])"
    by simp
  have h3: "2 \<le> length [-1/2, 3/2 :: real]" by simp
  show ?thesis using h1 spam_probability_second_column [OF h1 h2 h3] by simp
qed

text \<open>C33. The reported probability lies in \<open>[0, 1]\<close> when every entry the model
  returns does; the code itself checks nothing.\<close>

theorem spam_probability_in_unit_interval:
  assumes "predict_proba M = Some f" and "f [m] = Inr rows" and "unit_interval_rows rows"
    and "spam_probability M m = Inr (Some p)"
  shows "0 \<le> p \<and> p \<le> 1"
proof -
  from assms(1,2,4) obtain row where row: "py_index rows 0 = Inr row" and p: "py_index row 1 = Inr p"
    by (auto simp: spam_probability_def bind_exn_def catch_Exception_def split: sum.splits if_splits)
  from row have "row \<in> set rows" by (rule py_index_Inr_mem)
  moreover from p have "p \<in> set row" by (rule py_index_Inr_mem)
  ultimately show ?thesis using assms(3) by (auto simp: unit_interval_rows_def list_all_iff)
qed

theorem spam_probability_in_unit_interval_witness:
  "spam_probability calibrated (py ''hi'') = Inr (Some (3/4)) \<and> 0 \<le> (3/4::real) \<and> (3/4::real) \<le> 1"
proof -
  have h1: "predict_proba calibrated = Some (\<lambda>ms. Inr (map (\<lambda>_. [1/4, 3/4]) ms))"
    by (simp add: calibrated_def)
  have h2: "(\<lambda>ms. Inr (map (\<lambda>_. [1/4, 3/4 :: real]) ms) :: exn + real list list) [py ''hi''] =
            Inr [[1/4, 3/4]]"
    by simp
  have h3: "unit_interval_rows [[1/4, 3/4]]" by (simp add: unit_interval_rows_def)
  have h4: "spam_probability calibrated (py ''hi'') = Inr (Some (3/4))"
    by (simp add: spam_probability_def calibrated_def)
  show ?thesis using h4 spam_probability_in_unit_interval [OF h1 h2 h3 h4] by simp
qed

end
