(* ===== verification/Rounding.thy ===== *)
theory Rounding
  imports Prelude
begin

text \<open>
  Python's \<open>round(x, n)\<close> on a float, used on line 75 of \<open>src/app.py\<close> to report the
  latency: the exact value \<open>x\<close> is rounded to \<open>n\<close> decimal places, ties to even.
  Floats are modelled as reals (the value is rounded exactly; the final conversion back
  to the nearest double is not modelled). The lemmas bound the rounding error, show that
  rounding is monotone, keeps non-negative values non-negative and is idempotent.
\<close>

definition round_half_even :: "real \<Rightarrow> int" where
  "round_half_even x =
     (let f = \<lfloor>x\<rfloor>; d = x - of_int f
      in if d < 1/2 then f
         else if 1/2 < d then f + 1
         else if even f then f else f + 1)"

definition py_round :: "real \<Rightarrow> nat \<Rightarrow> real" where
  "py_round x n = of_int (round_half_even (x * 10 ^ n)) / 10 ^ n"

lemma round_half_even_bounds:
  "\<lfloor>x\<rfloor> \<le> round_half_even x \<and> round_half_even x \<le> \<lfloor>x\<rfloor> + 1"
  by (simp add: round_half_even_def Let_def)

lemma round_half_even_dist: "\<bar>of_int (round_half_even x) - x\<bar> \<le> 1/2"
proof -
  have "of_int \<lfloor>x\<rfloor> \<le> x" "x < of_int \<lfloor>x\<rfloor> + 1" by linarith+
  then show ?thesis
    by (auto simp: round_half_even_def Let_def abs_if; linarith)
qed

lemma round_half_even_of_int [simp]: "round_half_even (of_int k) = k"
  by (simp add: round_half_even_def)

lemma round_half_even_0 [simp]: "round_half_even 0 = 0"
  by (simp add: round_half_even_def)

lemma round_half_even_mono:
  assumes "x \<le> y"
  shows "round_half_even x \<le> round_half_even y"
proof (cases "\<lfloor>x\<rfloor> = \<lfloor>y\<rfloor>")
  case True
  with assms show ?thesis
    by (auto simp: round_half_even_def Let_def)
next
  case False
  with assms have "\<lfloor>x\<rfloor> + 1 \<le> \<lfloor>y\<rfloor>"
    by (metis floor_mono le_less zless_imp_add1_zle)
  with round_half_even_bounds [of x] round_half_even_bounds [of y] show ?thesis
    by linarith
qed

lemma py_round_nonneg: "0 \<le> x \<Longrightarrow> 0 \<le> py_round x n"
proof -
  assume "0 \<le> x"
  then have "round_half_even 0 \<le> round_half_even (x * 10 ^ n)"
    by (intro round_half_even_mono) simp
  then have "0 \<le> round_half_even (x * 10 ^ n)"
    by simp
  then show ?thesis by (simp add: py_round_def)
qed

lemma py_round_error: "\<bar>py_round x n - x\<bar> \<le> 1 / (2 * 10 ^ n)"
proof -
  have p: "(0::real) < 10 ^ n" by simp
  let ?r = "of_int (round_half_even (x * 10 ^ n)) :: real"
  have "py_round x n - x = (?r - x * 10 ^ n) / 10 ^ n"
    using p by (simp add: py_round_def field_simps)
  then have "\<bar>py_round x n - x\<bar> = \<bar>?r - x * 10 ^ n\<bar> / 10 ^ n"
    by simp
  also have "\<dots> \<le> (1/2) / 10 ^ n"
    using round_half_even_dist [of "x * 10 ^ n"] p by (intro divide_right_mono) auto
  also have "\<dots> = 1 / (2 * 10 ^ n)"
    by simp
  finally show ?thesis .
qed

lemma py_round_of_int: "py_round (of_int k / 10 ^ n) n = of_int k / 10 ^ n"
  by (simp add: py_round_def)

lemma py_round_idem: "py_round (py_round x n) n = py_round x n"
  by (simp add: py_round_def)

lemma py_round_mono: "x \<le> y \<Longrightarrow> py_round x n \<le> py_round y n"
  by (simp add: py_round_def divide_right_mono round_half_even_mono)

end
