(* ===== verification/Service.thy ===== *)
theory Service
  imports Predictor Rounding
begin

text \<open>
  The prediction service: \<open>_predict_one\<close> (lines 39-76 of \<open>src/app.py\<close>). The
  argument is whatever \<open>payload.get("message", "")\<close> returned, so any JSON value;
  the two clock readings are the values of \<open>time.perf_counter()\<close> on lines 53 and
  66. The result is the dictionary the code builds, or the exception it raises. Next to
  the code's definition stands the contract of the specification (section 4.2) as an
  abstract function on verdicts, and the theorems prove that the code refines it, that
  validation is applied first and in order, that the model is called only on valid
  messages and sees the stripped message, that every result is well formed, and what
  the latency and the probability fields hold.
\<close>

section \<open>The code\<close>

definition max_message_length :: nat where
  "max_message_length = 5000"

text \<open>The failure dictionary of lines 42-45 and 48-51.\<close>

definition error_result :: "string \<Rightarrow> json" where
  "error_result msg = JDict [(py ''ok'', JBool False), (py ''error'', JStr (py msg))]"

text \<open>The success dictionary of lines 70-76; \<open>None\<close> is JSON \<open>null\<close>.\<close>

definition ok_result :: "string \<Rightarrow> int \<Rightarrow> real option \<Rightarrow> real \<Rightarrow> json" where
  "ok_result label pred sp latency =
     JDict [(py ''ok'', JBool True),
            (py ''label'', JStr (py label)),
            (py ''prediction'', JInt pred),
            (py ''spam_probability'', (case sp of None \<Rightarrow> JNull | Some p \<Rightarrow> JFloat p)),
            (py ''latency_ms'', JFloat latency)]"

text \<open>The classification path, lines 53-76, on a validated message.\<close>

definition classify_message :: "predictor \<Rightarrow> real \<Rightarrow> real \<Rightarrow> pystr \<Rightarrow> exn + json" where
  "classify_message M t_start t_end message =
     bind_exn (predict M [message]) (\<lambda>preds.
     bind_exn (py_index preds 0) (\<lambda>pred.
     bind_exn (spam_probability M message) (\<lambda>sp.
     let elapsed_ms = (t_end - t_start) * 1000 in
     bind_exn (py_int pred) (\<lambda>p.
     let label = (if p = 1 then ''SPAM'' else ''HAM'') in
     Inr (ok_result label p sp (py_round elapsed_ms 2))))))"

text \<open>The whole function: \<open>(message or "").strip()\<close>, the two checks of lines 41-51,
  then the classification path.\<close>

definition predict_one :: "predictor \<Rightarrow> real \<Rightarrow> real \<Rightarrow> json \<Rightarrow> exn + json" where
  "predict_one M t_start t_end message0 =
     bind_exn (py_strip_value (py_or message0 (JStr []))) (\<lambda>message.
     if message = [] then Inr (error_result ''Message is empty.'')
     else if max_message_length < length message
     then Inr (error_result ''Message too long (max 5000 characters).'')
     else classify_message M t_start t_end message)"

section \<open>The contract\<close>

text \<open>
  Section 4.2 of the specification, on verdicts: a message is trimmed, rejected when
  empty or longer than 5000 characters, and otherwise classified with the class the
  model gives the trimmed message (label \<open>SPAM\<close> exactly for class 1) and the
  probability it gives, if any.
\<close>

datatype label = HAM | SPAM

datatype verdict = Rejected pystr | Classified label int "real option"

definition spec_predict :: "(pystr \<Rightarrow> int) \<Rightarrow> (pystr \<Rightarrow> real option) \<Rightarrow> pystr \<Rightarrow> verdict" where
  "spec_predict cls prob s =
     (let m = py_strip s
      in if m = [] then Rejected (py ''Message is empty.'')
         else if 5000 < length m then Rejected (py ''Message too long (max 5000 characters).'')
         else Classified (if cls m = 1 then SPAM else HAM) (cls m) (prob m))"

text \<open>Reading a verdict back from a result dictionary.\<close>

definition verdict_of_fields ::
  "json option \<Rightarrow> json option \<Rightarrow> json option \<Rightarrow> json option \<Rightarrow> json option \<Rightarrow> verdict option" where
  "verdict_of_fields ok err lab pred sp =
     (case ok of
        Some (JBool b) \<Rightarrow>
          if b then
            (case lab of
               Some (JStr l) \<Rightarrow>
                 (case pred of
                    Some (JInt p) \<Rightarrow>
                      (case sp of
                         Some (JFloat x) \<Rightarrow> Some (Classified (if l = py ''SPAM'' then SPAM else HAM) p (Some x))
                       | Some _ \<Rightarrow> Some (Classified (if l = py ''SPAM'' then SPAM else HAM) p None)
                       | None \<Rightarrow> None)
                  | _ \<Rightarrow> None)
             | _ \<Rightarrow> None)
          else (case err of Some (JStr e) \<Rightarrow> Some (Rejected e) | _ \<Rightarrow> None)
      | _ \<Rightarrow> None)"

fun verdict_of :: "json \<Rightarrow> verdict option" where
  "verdict_of (JDict kvs) =
     verdict_of_fields (dict_lookup kvs (py ''ok'')) (dict_lookup kvs (py ''error''))
       (dict_lookup kvs (py ''label'')) (dict_lookup kvs (py ''prediction''))
       (dict_lookup kvs (py ''spam_probability''))"
| "verdict_of _ = None"

text \<open>A model implements a class function and a probability function at a message.\<close>

definition implements :: "predictor \<Rightarrow> (pystr \<Rightarrow> int) \<Rightarrow> (pystr \<Rightarrow> real option) \<Rightarrow> pystr \<Rightarrow> bool" where
  "implements M cls prob m \<longleftrightarrow> classifies M m (cls m) \<and> spam_probability M m = Inr (prob m)"

text \<open>The deterministic part of a result: everything but the latency.\<close>

definition drop_latency :: "json \<Rightarrow> json" where
  "drop_latency r = (case r of JDict kvs \<Rightarrow> JDict (filter (\<lambda>(k, _). k \<noteq> py ''latency_ms'') kvs) | _ \<Rightarrow> r)"

text \<open>The result with its latency replaced; failure dictionaries have none.\<close>

definition with_latency :: "real \<Rightarrow> json \<Rightarrow> json" where
  "with_latency x r =
     (case r of
        JDict kvs \<Rightarrow> JDict (map (\<lambda>(k, v). if k = py ''latency_ms'' then (k, JFloat x) else (k, v)) kvs)
      | _ \<Rightarrow> r)"

section \<open>Sample models\<close>

text \<open>
  Two models used to instantiate the theorems, after the scenarios of section 8 of the
  specification: one that flags messages containing an exclamation mark and gives a
  probability row, and one without \<open>predict_proba\<close> whose labels are the strings
  \<open>"spam"\<close>/\<open>"ham"\<close>, as a pipeline trained on string targets returns.
\<close>

definition bang_is_spam :: predictor where
  "bang_is_spam =
     \<lparr>predict = (\<lambda>ms. Inr (map (\<lambda>m. PInt (if 33 \<in> set m then 1 else 0)) ms)),
      predict_proba = Some (\<lambda>ms. Inr (map (\<lambda>m. if 33 \<in> set m then [1/10, 9/10] else [4/5, 1/5]) ms))\<rparr>"

text \<open>The class and probability functions \<open>bang_is_spam\<close> implements.\<close>

definition bang_class :: "pystr \<Rightarrow> int" where
  "bang_class m = (if 33 \<in> set m then 1 else 0)"

definition bang_prob :: "pystr \<Rightarrow> real option" where
  "bang_prob m = Some (if 33 \<in> set m then 9/10 else 1/5)"

text \<open>Scenario messages 3 and 4 of section 8 of the specification, the first with
  surrounding blanks.\<close>

definition win_msg :: pystr where
  "win_msg = py '' Win a free prize now!!! ''"

definition meeting_msg :: pystr where
  "meeting_msg = py ''See you at the meeting tomorrow.''"


definition string_labels :: predictor where
  "string_labels =
     \<lparr>predict = (\<lambda>ms. Inr (map (\<lambda>m. PStr (if 33 \<in> set m then py ''spam'' else py ''ham'')) ms)),
      predict_proba = Some (\<lambda>ms. Inr (map (\<lambda>m. if 33 \<in> set m then [1/5, 4/5] else [9/10, 1/10]) ms))\<rparr>"

section \<open>Characteristic equations\<close>

lemma predict_one_JStr:
  "predict_one M t0 t1 (JStr s) =
     (if py_strip s = [] then Inr (error_result ''Message is empty.'')
      else if max_message_length < length (py_strip s)
      then Inr (error_result ''Message too long (max 5000 characters).'')
      else classify_message M t0 t1 (py_strip s))"
  by (cases "s = []") (simp_all add: predict_one_def py_or_def py_strip_eq)

lemma predict_one_falsy:
  "\<not> py_truthy v \<Longrightarrow> predict_one M t0 t1 v = Inr (error_result ''Message is empty.'')"
  by (simp add: predict_one_def py_strip_eq)

lemma predict_one_not_str:
  "py_truthy v \<Longrightarrow> \<not> is_str v \<Longrightarrow> predict_one M t0 t1 v = Inl AttributeError"
  by (cases v) (simp_all add: predict_one_def)

lemma verdict_of_error_result: "verdict_of (error_result e) = Some (Rejected (py e))"
  by (simp add: error_result_def verdict_of_fields_def dict_lookup_def)
lemma verdict_of_ok_result:
  "verdict_of (ok_result l p sp lat) = Some (Classified (if py l = py ''SPAM'' then SPAM else HAM) p sp)"
  by (cases sp) (simp_all add: ok_result_def verdict_of_fields_def dict_lookup_def)
lemma classify_message_implements:
  "implements M cls prob m \<Longrightarrow>
   classify_message M t0 t1 m =
     Inr (ok_result (if cls m = 1 then ''SPAM'' else ''HAM'') (cls m) (prob m) (py_round ((t1 - t0) * 1000) 2))"
  by (auto simp: implements_def classifies_def classify_message_def Let_def)


lemma classify_message_eq_Inr:
  "classify_message M t0 t1 m = Inr r \<longleftrightarrow>
     (\<exists>v vs p sp. predict M [m] = Inr (v # vs) \<and> spam_probability M m = Inr sp \<and> py_int v = Inr p \<and>
        r = ok_result (if p = 1 then ''SPAM'' else ''HAM'') p sp (py_round ((t1 - t0) * 1000) 2))"
proof (cases "predict M [m]")
  case (Inl e)
  then show ?thesis by (simp add: classify_message_def)
next
  case (Inr preds)
  show ?thesis
  proof (cases preds)
    case Nil
    with Inr show ?thesis by (simp add: classify_message_def)
  next
    case (Cons v vs)
    show ?thesis
    proof (cases "spam_probability M m")
      case (Inl e)
      with Inr Cons show ?thesis by (simp add: classify_message_def)
    next
      case sp: (Inr sp)
      show ?thesis
      proof (cases "py_int v")
        case (Inl e)
        with Inr Cons sp show ?thesis by (simp add: classify_message_def Let_def)
      next
        case (Inr p)
        with \<open>predict M [m] = Inr preds\<close> Cons sp show ?thesis
          by (auto simp: classify_message_def Let_def)
      qed
    qed
  qed
qed

lemma classify_message_eq_Inl:
  "classify_message M t0 t1 m = Inl e \<longleftrightarrow>
     predict M [m] = Inl e \<or> (predict M [m] = Inr [] \<and> e = IndexError) \<or>
     (\<exists>v vs. predict M [m] = Inr (v # vs) \<and>
        (spam_probability M m = Inl e \<or> (\<exists>sp. spam_probability M m = Inr sp \<and> py_int v = Inl e)))"
proof (cases "predict M [m]")
  case (Inl e')
  then show ?thesis by (simp add: classify_message_def)
next
  case (Inr preds)
  show ?thesis
  proof (cases preds)
    case Nil
    with Inr show ?thesis by (auto simp: classify_message_def)
  next
    case (Cons v vs)
    with Inr show ?thesis
      by (cases "spam_probability M m"; cases "py_int v") (auto simp: classify_message_def Let_def)
  qed
qed

lemma spam_probability_Inl: "spam_probability M m = Inl e \<Longrightarrow> \<not> is_Exception e"
  by (auto simp: spam_probability_def catch_Exception_def split: option.splits sum.splits if_splits)

lemma predict_one_Inr_cases:
  assumes "predict_one M t0 t1 v = Inr r"
  shows "r = error_result ''Message is empty.'' \<or> r = error_result ''Message too long (max 5000 characters).'' \<or>
         (\<exists>p sp. r = ok_result (if p = 1 then ''SPAM'' else ''HAM'') p sp (py_round ((t1 - t0) * 1000) 2))"
proof (cases "py_truthy v")
  case False
  with assms show ?thesis by (simp add: predict_one_falsy)
next
  case True
  show ?thesis
  proof (cases v)
    case (JStr s)
    with assms show ?thesis
      by (auto simp: predict_one_JStr classify_message_eq_Inr split: if_splits)
  qed (use assms True in \<open>simp_all add: predict_one_not_str\<close>)
qed

lemma ok_result_eq_iff:
  "ok_result l p sp lat = ok_result l' p' sp' lat' \<longleftrightarrow> py l = py l' \<and> p = p' \<and> sp = sp' \<and> lat = lat'"
  by (cases sp; cases sp') (auto simp: ok_result_def)

lemma error_result_ne_ok_result [simp]: "error_result e \<noteq> ok_result l p sp lat"
  by (simp add: error_result_def ok_result_def)

lemma ok_result_ne_error_result [simp]: "ok_result l p sp lat \<noteq> error_result e"
  by (simp add: error_result_def ok_result_def)

lemma with_latency_ok_result [simp]:
  "with_latency x (ok_result l p sp lat) = ok_result l p sp x"
  by (simp add: with_latency_def ok_result_def)

lemma with_latency_error_result [simp]: "with_latency x (error_result e) = error_result e"
  by (simp add: with_latency_def error_result_def)

lemma filter_key_map_key:
  "filter (\<lambda>(k, _). k \<noteq> key) (map (\<lambda>(k, v). if k = key then (k, x) else (k, v)) kvs) =
   filter (\<lambda>(k, _). k \<noteq> key) kvs"
  by (induction kvs) auto

lemma drop_latency_with_latency [simp]: "drop_latency (with_latency x r) = drop_latency r"
  by (cases r) (simp_all add: with_latency_def drop_latency_def filter_key_map_key)

lemma classify_message_with_latency:
  "classify_message M t0 t1 m =
     map_sum id (with_latency (py_round ((t1 - t0) * 1000) 2)) (classify_message M t0' t1' m)"
  by (simp add: classify_message_def bind_exn_def Let_def split: sum.splits)

lemma predict_one_with_latency:
  "predict_one M t0 t1 v =
     map_sum id (with_latency (py_round ((t1 - t0) * 1000) 2)) (predict_one M t0' t1' v)"
proof (cases "py_truthy v")
  case False
  then show ?thesis by (simp add: predict_one_falsy)
next
  case True
  show ?thesis
  proof (cases v)
    case (JStr s)
    then show ?thesis
      using classify_message_with_latency [of M t0 t1 "py_strip s" t0' t1']
      by (simp add: predict_one_JStr)
  qed (use True in \<open>simp_all add: predict_one_not_str\<close>)
qed

lemma predict_one_implements:
  assumes "py_strip s \<noteq> [] \<and> length (py_strip s) \<le> 5000 \<longrightarrow> implements M cls prob (py_strip s)"
  shows "predict_one M t0 t1 (JStr s) =
           (if py_strip s = [] then Inr (error_result ''Message is empty.'')
            else if 5000 < length (py_strip s)
            then Inr (error_result ''Message too long (max 5000 characters).'')
            else Inr (ok_result (if cls (py_strip s) = 1 then ''SPAM'' else ''HAM'') (cls (py_strip s))
                        (prob (py_strip s)) (py_round ((t1 - t0) * 1000) 2)))"
  using assms by (auto simp: predict_one_JStr max_message_length_def classify_message_implements)

lemmas eval_service = predict_one_JStr classify_message_def spam_probability_def py_strip_eq
  py_isspace_def max_message_length_def Let_def

section \<open>Properties of the prediction service\<close>

text \<open>C1. For every message string, the result of \<open>_predict_one\<close>, read back as a
  verdict, is the verdict of the contract of section 4.2 of the specification, provided the
  model answers on the trimmed message whenever that message passes validation:
  \<open>_predict_one\<close> refines the specification.\<close>

theorem predict_one_refines_spec:
  assumes "py_strip s \<noteq> [] \<and> length (py_strip s) \<le> 5000 \<longrightarrow> implements M cls prob (py_strip s)"
  shows "map_sum id verdict_of (predict_one M t0 t1 (JStr s)) = Inr (Some (spec_predict cls prob s))"
  by (simp add: predict_one_implements [OF assms] spec_predict_def Let_def
      verdict_of_error_result verdict_of_ok_result)

theorem predict_one_refines_spec_witness:
  "implements bang_is_spam bang_class bang_prob (py_strip win_msg) \<and>
   map_sum id verdict_of (predict_one bang_is_spam 1 2 (JStr win_msg)) =
     Inr (Some (spec_predict bang_class bang_prob win_msg))"
proof -
  have i: "implements bang_is_spam bang_class bang_prob (py_strip win_msg)"
    by (simp add: eval_service win_msg_def implements_def classifies_def bang_is_spam_def
                  bang_class_def bang_prob_def)
  then have h: "py_strip win_msg \<noteq> [] \<and> length (py_strip win_msg) \<le> 5000 \<longrightarrow>
      implements bang_is_spam bang_class bang_prob (py_strip win_msg)"
    by blast
  show ?thesis
    using i predict_one_refines_spec [where s = win_msg and M = bang_is_spam and cls = bang_class
      and prob = bang_prob, OF h] by simp
qed

text \<open>C3. A message that is falsy (missing, \<open>null\<close>, \<open>""\<close>, \<open>0\<close>, \<open>[]\<close>, ...) or
  a string of whitespace only is answered with \<open>ok=false\<close> and the error
  \<open>"Message is empty."\<close>, whatever the model and the clock.\<close>

theorem predict_one_empty:
  assumes "\<not> py_truthy v \<or> (\<exists>s. v = JStr s \<and> all_space s)"
  shows "predict_one M t0 t1 v = Inr (error_result ''Message is empty.'')"
  using assms by (auto simp: predict_one_falsy predict_one_JStr py_strip_Nil_iff)

theorem predict_one_empty_witness:
  "(\<exists>s. JStr (py ''  \<newline>  '') = JStr s \<and> all_space s) \<and>
   predict_one bang_is_spam 1 2 (JStr (py ''  \<newline>  '')) = Inr (error_result ''Message is empty.'')"
proof -
  have e: "\<exists>s. JStr (py ''  \<newline>  '') = JStr s \<and> all_space s"
    by (simp add: all_space_def py_isspace_def)
  then have h: "\<not> py_truthy (JStr (py ''  \<newline>  '')) \<or> (\<exists>s. JStr (py ''  \<newline>  '') = JStr s \<and> all_space s)"
    by blast
  show ?thesis using e predict_one_empty [OF h] by simp
qed

text \<open>C4. A string that is not blank and whose trimmed length exceeds 5000 code points
  is answered with \<open>ok=false\<close> and the error \<open>"Message too long (max 5000
  characters)."\<close>.\<close>

theorem predict_one_too_long:
  assumes "\<not> all_space s" and "5000 < length (py_strip s)"
  shows "predict_one M t0 t1 (JStr s) = Inr (error_result ''Message too long (max 5000 characters).'')"
  using assms by (simp add: predict_one_JStr py_strip_Nil_iff max_message_length_def)

theorem predict_one_too_long_witness:
  "\<not> all_space (replicate 5001 97) \<and> 5000 < length (py_strip (replicate 5001 97)) \<and>
   predict_one bang_is_spam 1 2 (JStr (replicate 5001 97)) =
     Inr (error_result ''Message too long (max 5000 characters).'')"
proof -
  have h1: "\<not> all_space (replicate 5001 97)" by (simp add: all_space_def py_isspace_def)
  have h2: "5000 < length (py_strip (replicate 5001 97))" by (simp add: py_strip_eq py_isspace_def)
  show ?thesis using h1 h2 predict_one_too_long [OF h1 h2] by simp
qed

text \<open>C5. Every dictionary \<open>_predict_one\<close> returns is one of the two failure
  dictionaries, or a success dictionary whose label is \<open>"SPAM"\<close> exactly when the
  prediction is 1 and \<open>"HAM"\<close> otherwise, with a latency that is not negative when the
  clock does not run backwards.\<close>

theorem predict_one_result_wf:
  assumes "t0 \<le> t1" and "predict_one M t0 t1 v = Inr r"
  shows "r = error_result ''Message is empty.'' \<or> r = error_result ''Message too long (max 5000 characters).'' \<or>
         (\<exists>p sp lat. r = ok_result (if p = 1 then ''SPAM'' else ''HAM'') p sp lat \<and> 0 \<le> lat)"
proof -
  have "0 \<le> py_round ((t1 - t0) * 1000) 2" using assms(1) by (simp add: py_round_nonneg)
  with predict_one_Inr_cases [OF assms(2)] show ?thesis by blast
qed

theorem predict_one_result_wf_witness:
  "(1::real) \<le> 3/2 \<and>
   predict_one bang_is_spam 1 (3/2) (JStr win_msg) = Inr (ok_result ''SPAM'' 1 (Some (9/10)) 500) \<and>
   (\<exists>p sp lat. ok_result ''SPAM'' 1 (Some (9/10)) 500 =
      ok_result (if p = 1 then ''SPAM'' else ''HAM'') p sp lat \<and> 0 \<le> lat)"
proof -
  have h: "predict_one bang_is_spam 1 (3/2) (JStr win_msg) = Inr (ok_result ''SPAM'' 1 (Some (9/10)) 500)"
    by (simp add: eval_service win_msg_def bang_is_spam_def py_round_def round_half_even_def)
  show ?thesis using h predict_one_result_wf [OF _ h] by simp
qed

text \<open>C6. In every success dictionary, \<open>label\<close> is \<open>"SPAM"\<close> or \<open>"HAM"\<close>, and it is
  \<open>"SPAM"\<close> exactly when \<open>prediction\<close> is 1 (the invariant of section 3 of the
  specification).\<close>

theorem predict_one_label_prediction:
  assumes "predict_one M t0 t1 v = Inr (JDict kvs)" and "dict_lookup kvs (py ''ok'') = Some (JBool True)"
  shows "(dict_lookup kvs (py ''label'') = Some (JStr (py ''SPAM'')) \<longleftrightarrow>
            dict_lookup kvs (py ''prediction'') = Some (JInt 1)) \<and>
         (dict_lookup kvs (py ''label'') = Some (JStr (py ''SPAM'')) \<or>
            dict_lookup kvs (py ''label'') = Some (JStr (py ''HAM'')))"
  using predict_one_Inr_cases [OF assms(1)] assms(2)
  by (auto simp: error_result_def ok_result_def dict_lookup_def split: if_splits)

theorem predict_one_label_prediction_witness:
  "predict_one bang_is_spam 1 2 (JStr meeting_msg) =
     Inr (JDict [(py ''ok'', JBool True), (py ''label'', JStr (py ''HAM'')), (py ''prediction'', JInt 0),
                 (py ''spam_probability'', JFloat (1/5)), (py ''latency_ms'', JFloat 1000)]) \<and>
   dict_lookup [(py ''ok'', JBool True), (py ''label'', JStr (py ''HAM'')), (py ''prediction'', JInt 0),
                (py ''spam_probability'', JFloat (1/5)), (py ''latency_ms'', JFloat 1000)] (py ''ok'') =
     Some (JBool True) \<and>
   dict_lookup [(py ''ok'', JBool True), (py ''label'', JStr (py ''HAM'')), (py ''prediction'', JInt 0),
                (py ''spam_probability'', JFloat (1/5)), (py ''latency_ms'', JFloat 1000)] (py ''label'') =
     Some (JStr (py ''HAM''))"
proof -
  have h: "predict_one bang_is_spam 1 2 (JStr meeting_msg) =
     Inr (JDict [(py ''ok'', JBool True), (py ''label'', JStr (py ''HAM'')), (py ''prediction'', JInt 0),
                 (py ''spam_probability'', JFloat (1/5)), (py ''latency_ms'', JFloat 1000)])"
    by (simp add: eval_service meeting_msg_def bang_is_spam_def py_round_def round_half_even_def ok_result_def)
  have ok: "dict_lookup [(py ''ok'', JBool True), (py ''label'', JStr (py ''HAM'')), (py ''prediction'', JInt 0),
                (py ''spam_probability'', JFloat (1/5)), (py ''latency_ms'', JFloat 1000)] (py ''ok'') =
     Some (JBool True)"
    by (simp add: dict_lookup_def)
  show ?thesis using h ok predict_one_label_prediction [OF h ok] by (simp add: dict_lookup_def)
qed

text \<open>C15. \<open>_predict_one\<close> raises only in these cases: the message is truthy but not a
  string (\<open>AttributeError\<close> from \<open>.strip()\<close>), or it is a valid string and the model
  fails on it: \<open>predict\<close> raises or returns no label, \<open>predict_proba\<close> raises an
  exception that is not an \<open>Exception\<close>, or \<open>int(pred)\<close> raises \<open>ValueError\<close>.\<close>

theorem predict_one_raises:
  assumes "predict_one M t0 t1 v = Inl e"
  shows "(e = AttributeError \<and> py_truthy v \<and> \<not> is_str v) \<or>
         (\<exists>s. v = JStr s \<and> py_strip s \<noteq> [] \<and> length (py_strip s) \<le> 5000 \<and>
            (predict M [py_strip s] = Inl e \<or>
             (predict M [py_strip s] = Inr [] \<and> e = IndexError) \<or>
             (\<exists>x xs. predict M [py_strip s] = Inr (x # xs) \<and>
                ((spam_probability M (py_strip s) = Inl e \<and> \<not> is_Exception e) \<or>
                 (py_int x = Inl e \<and> e = ValueError)))))"
proof (cases "py_truthy v")
  case False
  with assms show ?thesis by (simp add: predict_one_falsy)
next
  case True
  show ?thesis
  proof (cases v)
    case (JStr s)
    with assms show ?thesis
      by (auto simp: predict_one_JStr classify_message_eq_Inl max_message_length_def
               split: if_splits dest: spam_probability_Inl py_int_Inl)
  qed (use assms True in \<open>simp_all add: predict_one_not_str\<close>)
qed

theorem predict_one_raises_witness:
  "predict_one string_labels 1 2 (JStr meeting_msg) = Inl ValueError \<and>
   (\<exists>x xs. predict string_labels [py_strip meeting_msg] = Inr (x # xs) \<and> py_int x = Inl ValueError)"
proof -
  have h: "predict_one string_labels 1 2 (JStr meeting_msg) = Inl ValueError"
    by (simp add: eval_service meeting_msg_def string_labels_def py_int_of_str_def py_digit_def)
  show ?thesis using h predict_one_raises [OF h]
    by (simp add: meeting_msg_def string_labels_def py_strip_eq py_isspace_def py_int_of_str_def py_digit_def)
qed

text \<open>C16. The model is consulted only for valid messages: on a blank or over-long string
  the result does not depend on the model or on the clock.\<close>

theorem predict_one_invalid_model_independent:
  assumes "py_strip s = [] \<or> 5000 < length (py_strip s)"
  shows "predict_one M t0 t1 (JStr s) = predict_one M' t0' t1' (JStr s)"
  using assms by (auto simp: predict_one_JStr max_message_length_def)

theorem predict_one_invalid_model_independent_witness:
  "(py_strip (py '' '') = [] \<or> 5000 < length (py_strip (py '' ''))) \<and>
   predict_one bang_is_spam 1 2 (JStr (py '' '')) = predict_one string_labels 0 5 (JStr (py '' ''))"
proof -
  have h: "py_strip (py '' '') = [] \<or> 5000 < length (py_strip (py '' ''))"
    by (simp add: py_strip_eq py_isspace_def)
  show ?thesis using h predict_one_invalid_model_independent [OF h] by simp
qed

text \<open>C17. Surrounding whitespace never matters: a message and its trimmed form give the
  same result, so the model always sees the trimmed message.\<close>

theorem predict_one_strip_invariant:
  "predict_one M t0 t1 (JStr s) = predict_one M t0 t1 (JStr (py_strip s))"
  by (simp add: predict_one_JStr py_strip_idem)

text \<open>C18. Idempotence (section 8): for a fixed model, two calls with the same message
  agree on everything but \<open>latency_ms\<close>, whatever the clock readings.\<close>

theorem predict_one_deterministic:
  "map_sum id drop_latency (predict_one M t0 t1 v) = map_sum id drop_latency (predict_one M t0' t1' v)"
  by (subst predict_one_with_latency [of M t0 t1 v t0' t1']) (simp add: sum.map_comp comp_def id_def)

text \<open>C20. The reported latency is not negative and lies within 0.005 ms of the
  elapsed time between the two clock readings, when the clock does not run backwards.\<close>

theorem predict_one_latency:
  assumes "predict_one M t0 t1 v = Inr (ok_result l p sp lat)" and "t0 \<le> t1"
  shows "0 \<le> lat \<and> \<bar>lat - (t1 - t0) * 1000\<bar> \<le> 1 / 200"
proof -
  have "lat = py_round ((t1 - t0) * 1000) 2"
    using predict_one_Inr_cases [OF assms(1)] by (auto simp: ok_result_eq_iff)
  moreover have "\<bar>py_round ((t1 - t0) * 1000) 2 - (t1 - t0) * 1000\<bar> \<le> 1 / 200"
    using py_round_error [of "(t1 - t0) * 1000" 2] by simp
  ultimately show ?thesis using assms(2) by (simp add: py_round_nonneg)
qed

theorem predict_one_latency_witness:
  "predict_one bang_is_spam 1 (100001/100000) (JStr win_msg) =
     Inr (ok_result ''SPAM'' 1 (Some (9/10)) (1/100)) \<and> (1::real) \<le> 100001/100000 \<and>
   0 \<le> (1/100::real) \<and> \<bar>1/100 - (100001/100000 - 1) * 1000\<bar> \<le> (1 / 200::real)"
proof -
  have h: "predict_one bang_is_spam 1 (100001/100000) (JStr win_msg) =
     Inr (ok_result ''SPAM'' 1 (Some (9/10)) (1/100))"
    by (simp add: eval_service win_msg_def bang_is_spam_def py_round_def round_half_even_def)
  show ?thesis using h predict_one_latency [OF h] by simp
qed

text \<open>C29. The success dictionary carries the class under the key \<open>prediction\<close> and
  has no key \<open>raw_class\<close>, the name section 3 of the specification gives the field.\<close>

theorem predict_one_keys:
  assumes "predict_one M t0 t1 v = Inr (JDict kvs)" and "dict_lookup kvs (py ''ok'') = Some (JBool True)"
  shows "dict_lookup kvs (py ''raw_class'') = None \<and> (\<exists>p. dict_lookup kvs (py ''prediction'') = Some (JInt p))"
  using predict_one_Inr_cases [OF assms(1)] assms(2)
  by (auto simp: error_result_def ok_result_def dict_lookup_def)

theorem predict_one_keys_witness:
  "predict_one bang_is_spam 1 2 (JStr win_msg) =
     Inr (JDict [(py ''ok'', JBool True), (py ''label'', JStr (py ''SPAM'')), (py ''prediction'', JInt 1),
                 (py ''spam_probability'', JFloat (9/10)), (py ''latency_ms'', JFloat 1000)]) \<and>
   dict_lookup [(py ''ok'', JBool True), (py ''label'', JStr (py ''SPAM'')), (py ''prediction'', JInt 1),
                (py ''spam_probability'', JFloat (9/10)), (py ''latency_ms'', JFloat 1000)] (py ''raw_class'') = None"
proof -
  have h: "predict_one bang_is_spam 1 2 (JStr win_msg) =
     Inr (JDict [(py ''ok'', JBool True), (py ''label'', JStr (py ''SPAM'')), (py ''prediction'', JInt 1),
                 (py ''spam_probability'', JFloat (9/10)), (py ''latency_ms'', JFloat 1000)])"
    by (simp add: eval_service win_msg_def bang_is_spam_def py_round_def round_half_even_def ok_result_def)
  have ok: "dict_lookup [(py ''ok'', JBool True), (py ''label'', JStr (py ''SPAM'')), (py ''prediction'', JInt 1),
                (py ''spam_probability'', JFloat (9/10)), (py ''latency_ms'', JFloat 1000)] (py ''ok'') =
     Some (JBool True)"
    by (simp add: dict_lookup_def)
  show ?thesis using h predict_one_keys [OF h ok] by simp
qed

text \<open>C30. For every model whose label for a valid message is the string \<open>"spam"\<close>
  or \<open>"ham"\<close> (a pipeline trained on the dataset's text targets), \<open>_predict_one\<close>
  never answers: \<open>int(pred)\<close> raises \<open>ValueError\<close>, unless \<open>predict_proba\<close>
  already raised an exception that \<open>except Exception\<close> does not catch, which then
  propagates instead.\<close>

theorem string_label_model_raises:
  assumes "predict M [py_strip s] = Inr (PStr l # ls)" and "l = py ''spam'' \<or> l = py ''ham''"
    and "py_strip s \<noteq> []" and "length (py_strip s) \<le> 5000"
  shows "predict_one M t0 t1 (JStr s) =
           (case spam_probability M (py_strip s) of Inl e \<Rightarrow> Inl e | Inr _ \<Rightarrow> Inl ValueError)"
proof -
  have "py_int (PStr l) = Inl ValueError"
    using assms(2) by (auto simp: py_int_of_str_def py_strip_eq py_isspace_def py_digit_def)
  with assms(1,3,4) show ?thesis
    by (simp add: predict_one_JStr max_message_length_def classify_message_def bind_exn_def
             split: sum.split)
qed

theorem string_label_model_raises_witness:
  "predict string_labels [py_strip win_msg] = Inr [PStr (py ''spam'')] \<and>
   py_strip win_msg \<noteq> [] \<and> length (py_strip win_msg) \<le> 5000 \<and>
   predict_one string_labels 1 2 (JStr win_msg) = Inl ValueError"
proof -
  have h1: "predict string_labels [py_strip win_msg] = Inr (PStr (py ''spam'') # [])"
    by (simp add: string_labels_def win_msg_def py_strip_eq py_isspace_def)
  have h2: "py ''spam'' = py ''spam'' \<or> py ''spam'' = py ''ham''" by simp
  have h3: "py_strip win_msg \<noteq> []" by (simp add: win_msg_def py_strip_eq py_isspace_def)
  have h4: "length (py_strip win_msg) \<le> 5000" by (simp add: win_msg_def py_strip_eq py_isspace_def)
  have sp: "spam_probability string_labels (py_strip win_msg) = Inr (Some (4/5))"
    by (simp add: spam_probability_def string_labels_def win_msg_def py_strip_eq py_isspace_def)
  show ?thesis
    using h1 h3 h4 string_label_model_raises [OF h1 h2 h3 h4, of 1 2] sp by simp
qed



end
