(* ===== verification/Http.thy ===== *)
theory Http
  imports Service
begin

text \<open>
  The HTTP surface of \<open>src/app.py\<close>: the request body limit set on line 36, the
  handler \<open>api_predict\<close> of lines 84-90, the two routes declared by the decorators on
  lines 79 and 84, and how Flask turns the handler's value or exception into a response.
  The parts of Flask the handler relies on are modelled as Flask 2.3 / Werkzeug 2.3
  behave: \<open>request.get_json(silent=True)\<close> returns \<open>None\<close> without reading the body
  when the content type is not JSON and on a body that does not parse, and raises the
  \<open>413 RequestEntityTooLarge\<close> HTTP error when a JSON body is longer than
  \<open>MAX_CONTENT_LENGTH\<close>; an HTTP error becomes a response with its status, any other
  \<open>Exception\<close> a 500 response, and a \<open>BaseException\<close> that is not an
  \<open>Exception\<close> escapes Flask and gives no response. The template \<open>index.html\<close> is
  external; its page is represented by its name.
\<close>

section \<open>Requests and responses\<close>

text \<open>
  A request as the handler sees it: method, path, whether its content type is JSON
  (\<open>application/json\<close> or \<open>application/*+json\<close>), its body length in bytes, and the
  value \<open>json.loads\<close> gives for its body (\<open>None\<close> when the body is not valid JSON).
\<close>

record request =
  req_method :: string
  req_path :: string
  req_is_json :: bool
  req_length :: nat
  req_json :: "json option"

datatype resp_body = JsonBody json | TemplatePage string | ErrorPage nat | NoBody

record response =
  status :: nat
  resp_body :: resp_body

definition max_content_length :: nat where
  "max_content_length = 1 * 1024 * 1024"

text \<open>\<open>request.get_json(silent=True)\<close>; \<open>JNull\<close> is Python's \<open>None\<close>.\<close>

definition get_json_silent :: "request \<Rightarrow> exn + json" where
  "get_json_silent req =
     (if \<not> req_is_json req then Inr JNull
      else if max_content_length < req_length req then Inl RequestEntityTooLarge
      else Inr (case req_json req of None \<Rightarrow> JNull | Some j \<Rightarrow> j))"

section \<open>The handler\<close>

text \<open>Lines 85-90: the handler's return value \<open>(jsonify(result), status)\<close>.\<close>

definition api_predict :: "predictor \<Rightarrow> real \<Rightarrow> real \<Rightarrow> request \<Rightarrow> exn + json \<times> nat" where
  "api_predict M t_start t_end req =
     bind_exn (get_json_silent req) (\<lambda>j.
     let payload = py_or j (JDict []) in
     bind_exn (py_get payload (py ''message'') (JStr [])) (\<lambda>message.
     bind_exn (predict_one M t_start t_end message) (\<lambda>result.
     bind_exn (py_get result (py ''ok'') JNull) (\<lambda>ok.
     let status = (if py_truthy ok then 200 else 400 :: nat) in
     Inr (result, status)))))"

text \<open>
  Flask's \<open>wsgi_app\<close>: the handler's value becomes the response; an HTTP error its
  status page; any other \<open>Exception\<close> the 500 page; an exception that does not derive
  from \<open>Exception\<close> propagates out of Flask, and no response is sent.
\<close>

definition flask_response :: "exn + json \<times> nat \<Rightarrow> response option" where
  "flask_response r =
     (case r of
        Inr (j, st) \<Rightarrow> Some \<lparr>status = st, resp_body = JsonBody j\<rparr>
      | Inl RequestEntityTooLarge \<Rightarrow> Some \<lparr>status = 413, resp_body = ErrorPage 413\<rparr>
      | Inl e \<Rightarrow> if is_Exception e then Some \<lparr>status = 500, resp_body = ErrorPage 500\<rparr> else None)"

section \<open>Routing\<close>

text \<open>
  The rules of lines 79 and 84: \<open>GET /\<close> renders the page (Flask adds \<open>HEAD\<close> to a
  \<open>GET\<close> rule and answers \<open>OPTIONS\<close> for every rule itself), \<open>POST /api/predict\<close>
  runs \<open>api_predict\<close>; another method on a known path is 405, an unknown path 404.
  There is no \<open>static\<close> folder beside \<open>app.py\<close>, so Flask adds no static route.
\<close>

definition dispatch :: "predictor \<Rightarrow> real \<Rightarrow> real \<Rightarrow> request \<Rightarrow> response option" where
  "dispatch M t_start t_end req =
     (if req_path req = ''/'' then
        (if req_method req = ''GET'' \<or> req_method req = ''HEAD''
         then Some \<lparr>status = 200, resp_body = TemplatePage ''index.html''\<rparr>
         else if req_method req = ''OPTIONS'' then Some \<lparr>status = 200, resp_body = NoBody\<rparr>
         else Some \<lparr>status = 405, resp_body = ErrorPage 405\<rparr>)
      else if req_path req = ''/api/predict'' then
        (if req_method req = ''POST'' then flask_response (api_predict M t_start t_end req)
         else if req_method req = ''OPTIONS'' then Some \<lparr>status = 200, resp_body = NoBody\<rparr>
         else Some \<lparr>status = 405, resp_body = ErrorPage 405\<rparr>)
      else Some \<lparr>status = 404, resp_body = ErrorPage 404\<rparr>)"

text \<open>A response with the latency removed from a JSON body: what a response says
  apart from timing.\<close>

definition response_core :: "response option \<Rightarrow> response option" where
  "response_core =
     map_option (\<lambda>r. r\<lparr>resp_body := (case resp_body r of JsonBody j \<Rightarrow> JsonBody (drop_latency j) | b \<Rightarrow> b)\<rparr>)"

text \<open>Sample requests: a JSON POST to the prediction endpoint with a given parsed body and
  length, the same endpoint posted as \<open>text/plain\<close> with a 5 MB body, and a GET of the
  endpoint.\<close>

definition post_json :: "json option \<Rightarrow> nat \<Rightarrow> request" where
  "post_json b n = \<lparr>req_method = ''POST'', req_path = ''/api/predict'', req_is_json = True,
                     req_length = n, req_json = b\<rparr>"

definition text_post :: request where
  "text_post = \<lparr>req_method = ''POST'', req_path = ''/api/predict'', req_is_json = False,
                 req_length = 5000000, req_json = Some (JDict [(py ''message'', JStr win_msg)])\<rparr>"

definition get_api :: request where
  "get_api = \<lparr>req_method = ''GET'', req_path = ''/api/predict'', req_is_json = False,
               req_length = 0, req_json = None\<rparr>"


section \<open>Characteristic equations\<close>

lemma get_json_not_json [simp]: "\<not> req_is_json req \<Longrightarrow> get_json_silent req = Inr JNull"
  by (simp add: get_json_silent_def)

lemma get_json_json:
  "req_is_json req \<Longrightarrow> req_length req \<le> max_content_length \<Longrightarrow>
   get_json_silent req = Inr (case req_json req of None \<Rightarrow> JNull | Some j \<Rightarrow> j)"
  by (simp add: get_json_silent_def)

lemma py_get_error_result [simp]:
  "py_get (error_result e) k d =
     Inr (if k = py ''error'' then JStr (py e) else if k = py ''ok'' then JBool False else d)"
  by (simp add: error_result_def dict_lookup_def)

lemma py_get_ok_result [simp]:
  "py_get (ok_result l p sp lat) k d =
     Inr (if k = py ''latency_ms'' then JFloat lat
          else if k = py ''spam_probability'' then (case sp of None \<Rightarrow> JNull | Some x \<Rightarrow> JFloat x)
          else if k = py ''prediction'' then JInt p
          else if k = py ''label'' then JStr (py l)
          else if k = py ''ok'' then JBool True else d)"
  by (simp add: ok_result_def dict_lookup_def)

lemma api_predict_payload:
  "get_json_silent req = Inr j \<Longrightarrow>
   api_predict M t0 t1 req =
     bind_exn (py_get (py_or j (JDict [])) (py ''message'') (JStr [])) (\<lambda>message.
     bind_exn (predict_one M t0 t1 message) (\<lambda>result.
     bind_exn (py_get result (py ''ok'') JNull) (\<lambda>ok. Inr (result, if py_truthy ok then 200 else 400))))"
  by (simp add: api_predict_def)

lemma api_predict_empty_message:
  "get_json_silent req = Inr j \<Longrightarrow>
   py_get (py_or j (JDict [])) (py ''message'') (JStr []) = Inr v \<Longrightarrow>
   \<not> py_truthy v \<or> (\<exists>s. v = JStr s \<and> all_space s) \<Longrightarrow>
   api_predict M t0 t1 req = Inr (error_result ''Message is empty.'', 400)"
  by (auto simp: api_predict_payload predict_one_falsy predict_one_JStr py_strip_Nil_iff)

lemma dispatch_api:
  "req_method req = ''POST'' \<Longrightarrow> req_path req = ''/api/predict'' \<Longrightarrow>
   dispatch M t0 t1 req = flask_response (api_predict M t0 t1 req)"
  by (simp add: dispatch_def)

lemma flask_response_500: "is_Exception e \<Longrightarrow> e \<noteq> RequestEntityTooLarge \<Longrightarrow>
   flask_response (Inl e) = Some \<lparr>status = 500, resp_body = ErrorPage 500\<rparr>"
  by (cases e) (simp_all add: flask_response_def)

lemma api_predict_Inr_cases:
  assumes "api_predict M t0 t1 req = Inr (r, st)"
  shows "(st = 400 \<and> (r = error_result ''Message is empty.'' \<or>
                      r = error_result ''Message too long (max 5000 characters).'')) \<or>
         (st = 200 \<and> (\<exists>p sp. r = ok_result (if p = 1 then ''SPAM'' else ''HAM'') p sp
                                    (py_round ((t1 - t0) * 1000) 2)))"
proof -
  obtain j message where j: "get_json_silent req = Inr j"
    and m: "py_get (py_or j (JDict [])) (py ''message'') (JStr []) = Inr message"
    and p: "predict_one M t0 t1 message = Inr r"
    using assms by (auto simp: api_predict_def bind_exn_eq_Inr Let_def)
  from predict_one_Inr_cases [OF p] show ?thesis
  proof (elim disjE exE)
    assume "r = error_result ''Message is empty.''"
    with assms j m p show ?thesis by (simp add: api_predict_def)
  next
    assume "r = error_result ''Message too long (max 5000 characters).''"
    with assms j m p show ?thesis by (simp add: api_predict_def)
  next
    fix q sp
    assume "r = ok_result (if q = 1 then ''SPAM'' else ''HAM'') q sp (py_round ((t1 - t0) * 1000) 2)"
    with assms j m p show ?thesis by (auto simp: api_predict_def)
  qed
qed

lemma dispatch_JsonBody:
  "dispatch M t0 t1 req = Some \<lparr>status = st, resp_body = JsonBody r\<rparr> \<Longrightarrow>
   api_predict M t0 t1 req = Inr (r, st)"
  by (auto simp: dispatch_def flask_response_def split: if_splits sum.splits exn.splits)

lemma dict_lookup_map_other_key:
  "k' \<noteq> key \<Longrightarrow>
   dict_lookup (map (\<lambda>(k, v). if k = key then (k, x) else (k, v)) kvs) k' = dict_lookup kvs k'"
  by (induction kvs rule: rev_induct) (auto simp: dict_lookup_def)

lemma py_get_with_latency:
  "k \<noteq> py ''latency_ms'' \<Longrightarrow> py_get (with_latency x r) k d = py_get r k d"
  by (cases r) (simp_all add: with_latency_def dict_lookup_map_other_key del: py_Cons)

lemma api_predict_with_latency:
  "api_predict M t0 t1 req =
     map_sum id (\<lambda>(r, st). (with_latency (py_round ((t1 - t0) * 1000) 2) r, st)) (api_predict M t0' t1' req)"
proof (cases "get_json_silent req")
  case (Inl e)
  then show ?thesis by (simp add: api_predict_def)
next
  case j: (Inr j)
  show ?thesis
  proof (cases "py_get (py_or j (JDict [])) (py ''message'') (JStr [])")
    case (Inl e)
    with j show ?thesis by (simp add: api_predict_def)
  next
    case m: (Inr message)
    have pw: "predict_one M t0 t1 message =
        map_sum id (with_latency (py_round ((t1 - t0) * 1000) 2)) (predict_one M t0' t1' message)"
      by (rule predict_one_with_latency)
    show ?thesis
    proof (cases "predict_one M t0' t1' message")
      case (Inl e)
      with j m pw show ?thesis by (simp add: api_predict_def)
    next
      case (Inr r)
      with j m pw show ?thesis
        by (simp add: api_predict_def py_get_with_latency bind_exn_def split: sum.splits)
    qed
  qed
qed

lemma response_core_flask_with_latency:
  "response_core (flask_response (map_sum id (\<lambda>(r, st). (with_latency x r, st)) a)) =
   response_core (flask_response a)"
  by (cases a) (auto simp: flask_response_def response_core_def split: exn.splits)

lemma dispatch_core:
  "response_core (dispatch M t0 t1 req) = response_core (dispatch M t0' t1' req)"
  using response_core_flask_with_latency [of "py_round ((t1 - t0) * 1000) 2" "api_predict M t0' t1' req"]
  by (simp add: dispatch_def api_predict_with_latency [of M t0 t1 req t0' t1'])

lemmas eval_http = dispatch_def post_json_def api_predict_def get_json_silent_def max_content_length_def
  flask_response_def

section \<open>Properties of the HTTP layer\<close>

text \<open>C12. The handler answers 200 exactly with a success dictionary and 400 exactly with
  one of the two failure dictionaries (section 6 of the specification).\<close>

theorem api_predict_status:
  assumes "api_predict M t0 t1 req = Inr (r, st)"
  shows "(st = 200 \<and> (\<exists>l p sp lat. r = ok_result l p sp lat)) \<or>
         (st = 400 \<and> (r = error_result ''Message is empty.'' \<or>
                      r = error_result ''Message too long (max 5000 characters).''))"
  using api_predict_Inr_cases [OF assms] by blast

theorem api_predict_status_witness:
  "api_predict bang_is_spam 1 2 (post_json (Some (JDict [(py ''message'', JStr win_msg)])) 40) =
     Inr (ok_result ''SPAM'' 1 (Some (9/10)) 1000, 200) \<and>
   (\<exists>l p sp lat. ok_result ''SPAM'' 1 (Some (9/10)) 1000 = ok_result l p sp lat)"
proof -
  have h: "api_predict bang_is_spam 1 2 (post_json (Some (JDict [(py ''message'', JStr win_msg)])) 40) =
     Inr (ok_result ''SPAM'' 1 (Some (9/10)) 1000, 200)"
    by (simp add: eval_http eval_service win_msg_def bang_is_spam_def py_round_def round_half_even_def dict_lookup_def)
  show ?thesis using h api_predict_status [OF h] by blast
qed

text \<open>C13. A JSON body that does not parse, or an object without the field
  \<open>message\<close>, is answered 400 with \<open>"Message is empty."\<close>: a missing field is treated
  as the empty string (section 6).\<close>

theorem api_predict_missing_message:
  assumes "req_is_json req" and "req_length req \<le> max_content_length"
    and "req_json req = None \<or> (\<exists>kvs. req_json req = Some (JDict kvs) \<and> dict_lookup kvs (py ''message'') = None)"
  shows "api_predict M t0 t1 req = Inr (error_result ''Message is empty.'', 400)"
proof -
  from assms(3) obtain j where j: "get_json_silent req = Inr j"
    and m: "py_get (py_or j (JDict [])) (py ''message'') (JStr []) = Inr (JStr [])"
  proof (elim disjE exE conjE)
    assume "req_json req = None"
    with assms(1,2) show ?thesis using that by (simp add: get_json_json)
  next
    fix kvs assume "req_json req = Some (JDict kvs)" and "dict_lookup kvs (py ''message'') = None"
    with assms(1,2) show ?thesis using that by (cases kvs) (simp_all add: get_json_json py_or_def)
  qed
  from j m show ?thesis by (rule api_predict_empty_message) simp
qed

theorem api_predict_missing_message_witness:
  "req_is_json (post_json (Some (JDict [(py ''msg'', JStr win_msg)])) 40) \<and>
   req_length (post_json (Some (JDict [(py ''msg'', JStr win_msg)])) 40) \<le> max_content_length \<and>
   (\<exists>kvs. req_json (post_json (Some (JDict [(py ''msg'', JStr win_msg)])) 40) = Some (JDict kvs) \<and>
          dict_lookup kvs (py ''message'') = None) \<and>
   api_predict bang_is_spam 1 2 (post_json (Some (JDict [(py ''msg'', JStr win_msg)])) 40) =
     Inr (error_result ''Message is empty.'', 400)"
proof -
  let ?r = "post_json (Some (JDict [(py ''msg'', JStr win_msg)])) 40"
  have h1: "req_is_json ?r" by (simp add: post_json_def)
  have h2: "req_length ?r \<le> max_content_length" by (simp add: post_json_def max_content_length_def)
  have e: "\<exists>kvs. req_json ?r = Some (JDict kvs) \<and> dict_lookup kvs (py ''message'') = None"
    by (simp add: post_json_def dict_lookup_def)
  then have h3: "req_json ?r = None \<or>
      (\<exists>kvs. req_json ?r = Some (JDict kvs) \<and> dict_lookup kvs (py ''message'') = None)"
    by blast
  show ?thesis using h1 h2 e api_predict_missing_message [OF h1 h2 h3, of bang_is_spam 1 2] by simp
qed

text \<open>C26. A JSON body that is truthy but not an object (a non-empty array, a string, a
  number, \<open>true\<close>) makes \<open>payload.get\<close> raise \<open>AttributeError\<close>: the answer is the
  500 error page, not a 400 result.\<close>

theorem dispatch_non_object_body:
  assumes "req_method req = ''POST''" and "req_path req = ''/api/predict''"
    and "req_is_json req" and "req_length req \<le> max_content_length"
    and "req_json req = Some j" and "py_truthy j" and "\<not> is_dict j"
  shows "dispatch M t0 t1 req = Some \<lparr>status = 500, resp_body = ErrorPage 500\<rparr>"
proof -
  have "api_predict M t0 t1 req = Inl AttributeError"
    using assms(3-7) by (simp add: api_predict_def get_json_json py_get_not_dict)
  with assms(1,2) show ?thesis by (simp add: dispatch_api flask_response_500)
qed

theorem dispatch_non_object_body_witness:
  "req_json (post_json (Some (JList [JStr win_msg])) 40) = Some (JList [JStr win_msg]) \<and>
   py_truthy (JList [JStr win_msg]) \<and> \<not> is_dict (JList [JStr win_msg]) \<and>
   dispatch bang_is_spam 1 2 (post_json (Some (JList [JStr win_msg])) 40) =
     Some \<lparr>status = 500, resp_body = ErrorPage 500\<rparr>"
proof -
  let ?r = "post_json (Some (JList [JStr win_msg])) 40"
  have h1: "req_method ?r = ''POST''" "req_path ?r = ''/api/predict''" "req_is_json ?r"
    "req_length ?r \<le> max_content_length" "req_json ?r = Some (JList [JStr win_msg])"
    by (simp_all add: post_json_def max_content_length_def)
  have h2: "py_truthy (JList [JStr win_msg])" "\<not> is_dict (JList [JStr win_msg])" by simp_all
  show ?thesis using h1 h2 dispatch_non_object_body [OF h1 h2, of bang_is_spam 1 2] by simp
qed

text \<open>C27. A \<open>message\<close> that is truthy but not a string (a number, a list, an object,
  \<open>true\<close>) makes \<open>.strip()\<close> raise \<open>AttributeError\<close>: the answer is the 500 error
  page.\<close>

theorem dispatch_non_string_message:
  assumes "req_method req = ''POST''" and "req_path req = ''/api/predict''"
    and "req_is_json req" and "req_length req \<le> max_content_length"
    and "req_json req = Some (JDict kvs)" and "dict_lookup kvs (py ''message'') = Some v"
    and "py_truthy v" and "\<not> is_str v"
  shows "dispatch M t0 t1 req = Some \<lparr>status = 500, resp_body = ErrorPage 500\<rparr>"
proof -
  have "kvs \<noteq> []" using assms(6) by auto
  then have "api_predict M t0 t1 req = Inl AttributeError"
    using assms(3-8) by (simp add: api_predict_def get_json_json py_or_def predict_one_not_str)
  with assms(1,2) show ?thesis by (simp add: dispatch_api flask_response_500)
qed

theorem dispatch_non_string_message_witness:
  "dict_lookup [(py ''message'', JInt 5)] (py ''message'') = Some (JInt 5) \<and>
   py_truthy (JInt 5) \<and> \<not> is_str (JInt 5) \<and>
   dispatch bang_is_spam 1 2 (post_json (Some (JDict [(py ''message'', JInt 5)])) 20) =
     Some \<lparr>status = 500, resp_body = ErrorPage 500\<rparr>"
proof -
  let ?r = "post_json (Some (JDict [(py ''message'', JInt 5)])) 20"
  have h1: "req_method ?r = ''POST''" "req_path ?r = ''/api/predict''" "req_is_json ?r"
    "req_length ?r \<le> max_content_length" "req_json ?r = Some (JDict [(py ''message'', JInt 5)])"
    "dict_lookup [(py ''message'', JInt 5)] (py ''message'') = Some (JInt 5)"
    by (simp_all add: post_json_def max_content_length_def dict_lookup_def)
  have h2: "py_truthy (JInt 5)" "\<not> is_str (JInt 5)" by simp_all
  show ?thesis using h1 h2 dispatch_non_string_message [OF h1 h2, of bang_is_spam 1 2] by simp
qed

text \<open>C24. A JSON body longer than \<open>MAX_CONTENT_LENGTH\<close> (1 MiB) is refused with
  413 before \<open>_predict_one\<close> runs.\<close>

theorem dispatch_oversized_json:
  assumes "req_method req = ''POST''" and "req_path req = ''/api/predict''"
    and "req_is_json req" and "max_content_length < req_length req"
  shows "dispatch M t0 t1 req = Some \<lparr>status = 413, resp_body = ErrorPage 413\<rparr>"
  using assms by (simp add: dispatch_api api_predict_def get_json_silent_def flask_response_def)

theorem dispatch_oversized_json_witness:
  "max_content_length < req_length (post_json (Some (JDict [(py ''message'', JStr win_msg)])) 2000000) \<and>
   dispatch bang_is_spam 1 2 (post_json (Some (JDict [(py ''message'', JStr win_msg)])) 2000000) =
     Some \<lparr>status = 413, resp_body = ErrorPage 413\<rparr>"
proof -
  let ?r = "post_json (Some (JDict [(py ''message'', JStr win_msg)])) 2000000"
  have h: "req_method ?r = ''POST''" "req_path ?r = ''/api/predict''" "req_is_json ?r"
    "max_content_length < req_length ?r"
    by (simp_all add: post_json_def max_content_length_def)
  show ?thesis using h dispatch_oversized_json [OF h, of bang_is_spam 1 2] by simp
qed

text \<open>C25. A body that is not declared as JSON is never read: whatever its length and
  content, the answer is 400 with \<open>"Message is empty."\<close>; the 1 MiB limit does not
  reject it.\<close>

theorem dispatch_non_json_body:
  assumes "req_method req = ''POST''" and "req_path req = ''/api/predict''" and "\<not> req_is_json req"
  shows "dispatch M t0 t1 req =
           Some \<lparr>status = 400, resp_body = JsonBody (error_result ''Message is empty.'')\<rparr>"
proof -
  have j: "get_json_silent req = Inr JNull" using assms(3) by simp
  have m: "py_get (py_or JNull (JDict [])) (py ''message'') (JStr []) = Inr (JStr [])" by simp
  have "api_predict M t0 t1 req = Inr (error_result ''Message is empty.'', 400)"
    using api_predict_empty_message [OF j m] by simp
  with assms(1,2) show ?thesis by (simp add: dispatch_api flask_response_def)
qed

theorem dispatch_non_json_body_witness:
  "\<not> req_is_json text_post \<and> max_content_length < req_length text_post \<and>
   dispatch bang_is_spam 1 2 text_post =
     Some \<lparr>status = 400, resp_body = JsonBody (error_result ''Message is empty.'')\<rparr>"
proof -
  have h: "req_method text_post = ''POST''" "req_path text_post = ''/api/predict''"
    "\<not> req_is_json text_post"
    by (simp_all add: text_post_def)
  have "max_content_length < req_length text_post"
    by (simp add: text_post_def max_content_length_def)
  then show ?thesis using h dispatch_non_json_body [OF h, of bang_is_spam 1 2] by simp
qed

text \<open>C28. Only \<open>POST /api/predict\<close> consults the model: every other request gets an
  answer that depends neither on the model nor on the clock.\<close>

theorem dispatch_other_routes_model_independent:
  assumes "\<not> (req_method req = ''POST'' \<and> req_path req = ''/api/predict'')"
  shows "dispatch M t0 t1 req = dispatch M' t0' t1' req"
  using assms by (simp add: dispatch_def)

theorem dispatch_other_routes_model_independent_witness:
  "\<not> (req_method get_api = ''POST'' \<and> req_path get_api = ''/api/predict'') \<and>
   dispatch bang_is_spam 1 2 get_api = dispatch string_labels 0 7 get_api \<and>
   dispatch bang_is_spam 1 2 get_api = Some \<lparr>status = 405, resp_body = ErrorPage 405\<rparr>"
proof -
  have h: "\<not> (req_method get_api = ''POST'' \<and> req_path get_api = ''/api/predict'')"
    by (simp add: get_api_def)
  have "dispatch bang_is_spam 1 2 get_api = Some \<lparr>status = 405, resp_body = ErrorPage 405\<rparr>"
    by (simp add: dispatch_def get_api_def)
  then show ?thesis
    using h dispatch_other_routes_model_independent [OF h, of bang_is_spam 1 2 string_labels 0 7] by simp
qed

end
