(* ===== verification/Loader.thy ===== *)
theory Loader
  imports Prelude
begin

text \<open>
  The model loader: the artifact paths of lines 11-15 of \<open>src/app.py\<close> and
  \<open>load_model\<close> (lines 18-30). The file system is a map from paths to entries (a file
  with its content, or a directory), read once at start-up; \<open>Path.exists()\<close> holds for
  both kinds of entry. \<open>joblib.load\<close> opens the path (a directory raises
  \<open>IsADirectoryError\<close>) and deserialises the content; the deserialiser belongs to the
  external training pipeline and is a parameter, so the lemmas hold for every artifact
  format. They show the priority of the \<open>.joblib\<close> file, the fallback to the
  \<open>.pkl\<close> file, the fatal error naming both paths, and that a present but unreadable
  first artifact is fatal, without fallback.
\<close>

datatype 'c fs_entry = File 'c | Dir

type_synonym 'c filesystem = "pystr \<Rightarrow> 'c fs_entry option"

text \<open>\<open>p / name\<close> for a \<open>pathlib.Path\<close>, as \<open>str()\<close> prints it.\<close>

definition path_join :: "pystr \<Rightarrow> string \<Rightarrow> pystr" where
  "path_join p name = p @ py ''/'' @ py name"

definition model_dir :: "pystr \<Rightarrow> pystr" where
  "model_dir base_dir = path_join base_dir ''Model''"

definition default_joblib_path :: "pystr \<Rightarrow> pystr" where
  "default_joblib_path base_dir = path_join (model_dir base_dir) ''spam_classifier.joblib''"

definition default_pkl_path :: "pystr \<Rightarrow> pystr" where
  "default_pkl_path base_dir = path_join (model_dir base_dir) ''spam_classifier.pkl''"

definition path_exists :: "'c filesystem \<Rightarrow> pystr \<Rightarrow> bool" where
  "path_exists fs p \<longleftrightarrow> fs p \<noteq> None"

definition joblib_load :: "('c \<Rightarrow> exn + 'm) \<Rightarrow> 'c filesystem \<Rightarrow> pystr \<Rightarrow> exn + 'm" where
  "joblib_load deser fs p =
     (case fs p of
        None \<Rightarrow> Inl (FileNotFoundError p)
      | Some Dir \<Rightarrow> Inl IsADirectoryError
      | Some (File c) \<Rightarrow> deser c)"

text \<open>The message of the \<open>FileNotFoundError\<close> of lines 27-30.\<close>

definition not_found_message :: "pystr \<Rightarrow> pystr" where
  "not_found_message base_dir =
     py ''Model file not found. Expected one of: '' @ default_joblib_path base_dir @
     py '' or '' @ default_pkl_path base_dir"

definition load_model :: "('c \<Rightarrow> exn + 'm) \<Rightarrow> pystr \<Rightarrow> 'c filesystem \<Rightarrow> exn + 'm" where
  "load_model deser base_dir fs =
     (if path_exists fs (default_joblib_path base_dir)
      then joblib_load deser fs (default_joblib_path base_dir)
      else if path_exists fs (default_pkl_path base_dir)
      then joblib_load deser fs (default_pkl_path base_dir)
      else Inl (FileNotFoundError (not_found_message base_dir)))"

text \<open>A sample installation: the project in \<open>/srv/app\<close>, artifacts as strings, and a
  deserialiser that accepts exactly the artifact \<open>''pipeline''\<close>.\<close>

definition sample_base :: pystr where
  "sample_base = py ''/srv/app''"

definition sample_deser :: "string \<Rightarrow> exn + nat" where
  "sample_deser c = (if c = ''pipeline'' then Inr 1 else Inl (ModelError (py ''UnpicklingError'')))"

text \<open>File systems of the sample installation: both artifacts readable; only the
  \<open>.pkl\<close> one; none; a corrupt \<open>.joblib\<close> beside a readable \<open>.pkl\<close>.\<close>

definition fs_both :: "string filesystem" where
  "fs_both p = (if p = default_joblib_path sample_base \<or> p = default_pkl_path sample_base
                then Some (File ''pipeline'') else None)"

definition fs_pkl_only :: "string filesystem" where
  "fs_pkl_only p = (if p = default_pkl_path sample_base then Some (File ''pipeline'') else None)"

definition fs_empty :: "string filesystem" where
  "fs_empty p = None"

definition fs_corrupt_joblib :: "string filesystem" where
  "fs_corrupt_joblib p =
     (if p = default_joblib_path sample_base then Some (File ''truncated'')
      else if p = default_pkl_path sample_base then Some (File ''pipeline'') else None)"

section \<open>Lemmas\<close>

lemma joblib_pkl_paths_differ: "default_joblib_path b \<noteq> default_pkl_path b"
  by (simp add: default_joblib_path_def default_pkl_path_def path_join_def)

lemma joblib_load_file [simp]: "fs p = Some (File c) \<Longrightarrow> joblib_load deser fs p = deser c"
  by (simp add: joblib_load_def)

lemma load_model_Inr:
  "load_model deser b fs = Inr m \<longleftrightarrow>
     (\<exists>c. fs (default_joblib_path b) = Some (File c) \<and> deser c = Inr m) \<or>
     (fs (default_joblib_path b) = None \<and>
      (\<exists>c. fs (default_pkl_path b) = Some (File c) \<and> deser c = Inr m))"
  by (auto simp: load_model_def path_exists_def joblib_load_def split: option.splits fs_entry.splits)


section \<open>Properties of the loader\<close>

text \<open>C9. When the \<open>.joblib\<close> artifact exists, the \<open>.pkl\<close> path is never consulted:
  whatever is or is not there, \<open>load_model\<close> gives the same outcome.\<close>

theorem load_model_prefers_joblib:
  assumes "path_exists fs (default_joblib_path b)"
  shows "load_model deser b (fs(default_pkl_path b := x)) = load_model deser b fs"
  using assms joblib_pkl_paths_differ [of b]
  by (simp add: load_model_def path_exists_def joblib_load_def)

theorem load_model_prefers_joblib_witness:
  "path_exists fs_both (default_joblib_path sample_base) \<and>
   load_model sample_deser sample_base (fs_both(default_pkl_path sample_base := Some Dir)) = Inr 1"
proof -
  have h: "path_exists fs_both (default_joblib_path sample_base)"
    by (simp add: path_exists_def fs_both_def)
  have "load_model sample_deser sample_base fs_both = Inr 1"
    by (simp add: load_model_def path_exists_def fs_both_def sample_deser_def)
  then show ?thesis using h load_model_prefers_joblib [OF h, of sample_deser "Some Dir"] by simp
qed

text \<open>C10. When only the \<open>.pkl\<close> artifact exists, it is loaded.\<close>

theorem load_model_falls_back_to_pkl:
  assumes "\<not> path_exists fs (default_joblib_path b)" and "fs (default_pkl_path b) = Some (File c)"
  shows "load_model deser b fs = deser c"
  using assms by (simp add: load_model_def path_exists_def)

theorem load_model_falls_back_to_pkl_witness:
  "\<not> path_exists fs_pkl_only (default_joblib_path sample_base) \<and>
   fs_pkl_only (default_pkl_path sample_base) = Some (File ''pipeline'') \<and>
   load_model sample_deser sample_base fs_pkl_only = Inr 1"
proof -
  have h1: "\<not> path_exists fs_pkl_only (default_joblib_path sample_base)"
    by (simp add: path_exists_def fs_pkl_only_def joblib_pkl_paths_differ)
  have h2: "fs_pkl_only (default_pkl_path sample_base) = Some (File ''pipeline'')"
    by (simp add: fs_pkl_only_def)
  show ?thesis
    using h1 h2 load_model_falls_back_to_pkl [OF h1 h2, of sample_deser] by (simp add: sample_deser_def)
qed

text \<open>C11. When neither artifact exists, start-up fails with \<open>FileNotFoundError\<close>, and
  its message names both paths (scenario 5 of section 8 of the specification).\<close>

theorem load_model_not_found:
  assumes "\<not> path_exists fs (default_joblib_path b)" and "\<not> path_exists fs (default_pkl_path b)"
  shows "load_model deser b fs = Inl (FileNotFoundError (not_found_message b)) \<and>
         (\<exists>u v. not_found_message b = u @ default_joblib_path b @ v) \<and>
         (\<exists>u v. not_found_message b = u @ default_pkl_path b @ v)"
proof -
  have j: "\<exists>u v. not_found_message b = u @ default_joblib_path b @ v"
    by (rule exI [of _ "py ''Model file not found. Expected one of: ''"],
        rule exI [of _ "py '' or '' @ default_pkl_path b"]) (simp add: not_found_message_def)
  have k: "\<exists>u v. not_found_message b = u @ default_pkl_path b @ v"
    by (rule exI [of _ "py ''Model file not found. Expected one of: '' @ default_joblib_path b @ py '' or ''"],
        rule exI [of _ "[]"]) (simp add: not_found_message_def)
  from j k assms show ?thesis by (simp add: load_model_def)
qed

theorem load_model_not_found_witness:
  "\<not> path_exists fs_empty (default_joblib_path sample_base) \<and>
   \<not> path_exists fs_empty (default_pkl_path sample_base) \<and>
   load_model sample_deser sample_base fs_empty = Inl (FileNotFoundError (not_found_message sample_base))"
proof -
  have h1: "\<not> path_exists fs_empty (default_joblib_path sample_base)"
    by (simp add: path_exists_def fs_empty_def)
  have h2: "\<not> path_exists fs_empty (default_pkl_path sample_base)"
    by (simp add: path_exists_def fs_empty_def)
  show ?thesis using h1 h2 load_model_not_found [OF h1 h2, of sample_deser] by simp
qed

text \<open>C21. A \<open>.joblib\<close> artifact that exists but does not deserialise is fatal: the
  readable \<open>.pkl\<close> artifact is not tried.\<close>

theorem load_model_no_fallback:
  assumes "fs (default_joblib_path b) = Some (File c)" and "deser c = Inl e"
  shows "load_model deser b fs = Inl e"
  using assms by (simp add: load_model_def path_exists_def)

theorem load_model_no_fallback_witness:
  "fs_corrupt_joblib (default_joblib_path sample_base) = Some (File ''truncated'') \<and>
   sample_deser ''truncated'' = Inl (ModelError (py ''UnpicklingError'')) \<and>
   load_model sample_deser sample_base fs_corrupt_joblib = Inl (ModelError (py ''UnpicklingError''))"
proof -
  have h1: "fs_corrupt_joblib (default_joblib_path sample_base) = Some (File ''truncated'')"
    by (simp add: fs_corrupt_joblib_def)
  have h2: "sample_deser ''truncated'' = Inl (ModelError (py ''UnpicklingError''))"
    by (simp add: sample_deser_def)
  show ?thesis
    using h1 h2 load_model_no_fallback [where fs = fs_corrupt_joblib and b = sample_base
      and deser = sample_deser, OF h1 h2] by simp
qed

end
