(* ===== verification/Server.thy ===== *)
theory Server
  imports Http Loader
begin

text \<open>
  The life of the process: importing \<open>src/app.py\<close> runs \<open>MODEL = load_model()\<close>
  (line 33) and creates the app (lines 35-36); an exception there aborts start-up.
  Afterwards the server answers requests, each independently, with the module global
  \<open>MODEL\<close>, which no code path assigns again. The process is a state machine: an
  inductive step relation whose events are the boot and the requests with their responses,
  and whose runs are lists of events. Requests may be served by several threads at once;
  since no request changes the state, an interleaving of concurrent requests is a run in
  which each request appears at the place its response is produced, and each request reads
  the monotonic clock twice, with \<open>t_start \<le> t_end\<close>. The lemmas prove by rule
  induction that the model in use is always the one loaded at start-up, that a failed
  start-up answers no request, and what every answer of a run is.
\<close>

datatype proc = Booting | Serving predictor | Failed exn

datatype event = Boot | Served request "response option"

text \<open>Lines 33-36: the outcome of importing the module.\<close>

definition start :: "('c \<Rightarrow> exn + predictor) \<Rightarrow> pystr \<Rightarrow> 'c filesystem \<Rightarrow> proc" where
  "start deser base_dir fs =
     (case load_model deser base_dir fs of Inl e \<Rightarrow> Failed e | Inr m \<Rightarrow> Serving m)"

inductive proc_step ::
  "('c \<Rightarrow> exn + predictor) \<Rightarrow> pystr \<Rightarrow> 'c filesystem \<Rightarrow> proc \<Rightarrow> event \<Rightarrow> proc \<Rightarrow> bool"
  for deser base_dir fs where
  boot: "proc_step deser base_dir fs Booting Boot (start deser base_dir fs)"
| serve: "t_start \<le> t_end \<Longrightarrow>
     proc_step deser base_dir fs (Serving M) (Served req (dispatch M t_start t_end req)) (Serving M)"

inductive run ::
  "('c \<Rightarrow> exn + predictor) \<Rightarrow> pystr \<Rightarrow> 'c filesystem \<Rightarrow> proc \<Rightarrow> event list \<Rightarrow> proc \<Rightarrow> bool"
  for deser base_dir fs where
  run_nil: "run deser base_dir fs p [] p"
| run_cons: "proc_step deser base_dir fs p e q \<Longrightarrow> run deser base_dir fs q es r \<Longrightarrow>
     run deser base_dir fs p (e # es) r"

inductive_cases step_BootingE: "proc_step deser base_dir fs Booting e q"
inductive_cases step_ServingE: "proc_step deser base_dir fs (Serving M) e q"
inductive_cases step_FailedE: "proc_step deser base_dir fs (Failed x) e q"
inductive_simps run_Nil_simp: "run deser base_dir fs p [] q"
inductive_simps run_Cons_simp: "run deser base_dir fs p (e # es) q"

text \<open>What a state says about start-up: nothing yet, the model loaded, or the error.\<close>

fun agrees_with_load :: "exn + predictor \<Rightarrow> proc \<Rightarrow> bool" where
  "agrees_with_load l Booting = True"
| "agrees_with_load l (Serving M) = (l = Inr M)"
| "agrees_with_load l (Failed e) = (l = Inl e)"

fun is_served :: "event \<Rightarrow> bool" where
  "is_served Boot = False"
| "is_served (Served _ _) = True"

text \<open>A sample deployment: the sample installation with both artifacts, whose
  deserialiser yields the model \<open>bang_is_spam\<close>.\<close>

definition sample_pipeline :: "string \<Rightarrow> exn + predictor" where
  "sample_pipeline c = (if c = ''pipeline'' then Inr bang_is_spam else Inl (ModelError (py ''UnpicklingError'')))"

section \<open>Lemmas\<close>

lemma start_agrees: "agrees_with_load (load_model deser b fs) (start deser b fs)"
  by (simp add: start_def split: sum.splits)

lemma step_agrees:
  "proc_step deser b fs p e q \<Longrightarrow> agrees_with_load (load_model deser b fs) p \<Longrightarrow>
   agrees_with_load (load_model deser b fs) q"
  by (induction rule: proc_step.induct) (simp_all add: start_agrees)

lemma run_agrees:
  "run deser b fs p es q \<Longrightarrow> agrees_with_load (load_model deser b fs) p \<Longrightarrow>
   agrees_with_load (load_model deser b fs) q"
  by (induction rule: run.induct) (auto dest: step_agrees)

lemma step_from_Failed: "\<not> proc_step deser b fs (Failed x) e q"
  by (auto elim: step_FailedE)

lemma run_from_Failed: "run deser b fs (Failed x) es q \<Longrightarrow> es = [] \<and> q = Failed x"
  by (cases rule: run.cases) (auto simp: step_from_Failed)

lemma run_served_from_Serving:
  "run deser b fs (Serving M) es q \<Longrightarrow> Served req resp \<in> set es \<Longrightarrow>
   \<exists>t_start t_end. t_start \<le> t_end \<and> resp = dispatch M t_start t_end req"
  by (induction "Serving M" es q arbitrary: M rule: run.induct) (auto elim!: step_ServingE)

lemma run_from_Serving_stays:
  "run deser b fs (Serving M) es q \<Longrightarrow> q = Serving M"
  by (induction "Serving M" es q arbitrary: M rule: run.induct) (auto elim!: step_ServingE)

lemma run_from_Serving_no_boot:
  "run deser b fs (Serving M) es q \<Longrightarrow> Boot \<notin> set es"
  by (induction "Serving M" es q arbitrary: M rule: run.induct) (auto elim!: step_ServingE)

lemma run_from_Booting:
  "run deser b fs Booting es q \<Longrightarrow>
   es = [] \<and> q = Booting \<or>
   (\<exists>es'. es = Boot # es' \<and> run deser b fs (start deser b fs) es' q)"
  by (cases rule: run.cases) (auto elim!: step_BootingE)


lemma run_served:
  assumes "run deser b fs Booting es q" and "Served req resp \<in> set es"
  shows "\<exists>M t_start t_end. load_model deser b fs = Inr M \<and> t_start \<le> t_end \<and>
           resp = dispatch M t_start t_end req"
proof -
  from run_from_Booting [OF assms(1)] assms(2) obtain es' where
    es: "es = Boot # es'" and r: "run deser b fs (start deser b fs) es' q"
    by auto
  from es assms(2) have mem: "Served req resp \<in> set es'" by auto
  show ?thesis
  proof (cases "load_model deser b fs")
    case (Inl e)
    with r have "es' = []" by (auto simp: start_def dest: run_from_Failed)
    with mem show ?thesis by simp
  next
    case (Inr M)
    with r have "run deser b fs (Serving M) es' q" by (simp add: start_def)
    from run_served_from_Serving [OF this mem] Inr show ?thesis by blast
  qed
qed

lemma sample_run:
  "run sample_pipeline sample_base fs_both Booting
     [Boot, Served get_api (Some \<lparr>status = 405, resp_body = ErrorPage 405\<rparr>)] (Serving bang_is_spam)"
proof -
  have s: "start sample_pipeline sample_base fs_both = Serving bang_is_spam"
    by (simp add: start_def load_model_def path_exists_def fs_both_def sample_pipeline_def)
  have d: "dispatch bang_is_spam 0 0 get_api = Some \<lparr>status = 405, resp_body = ErrorPage 405\<rparr>"
    by (simp add: dispatch_def get_api_def)
  have b: "proc_step sample_pipeline sample_base fs_both Booting Boot (Serving bang_is_spam)"
    using proc_step.boot [of sample_pipeline sample_base fs_both] s by simp
  have sv: "proc_step sample_pipeline sample_base fs_both (Serving bang_is_spam)
      (Served get_api (Some \<lparr>status = 405, resp_body = ErrorPage 405\<rparr>)) (Serving bang_is_spam)"
    using proc_step.serve [where deser = sample_pipeline and base_dir = sample_base and fs = fs_both
      and t_start = 0 and t_end = 0 and M = bang_is_spam and req = get_api] d by simp
  show ?thesis by (rule run_cons [OF b run_cons [OF sv run_nil]])
qed

lemma sample_failed_run:
  "run sample_pipeline sample_base fs_empty Booting [Boot] (Failed (FileNotFoundError (not_found_message sample_base)))"
proof -
  have s: "start sample_pipeline sample_base fs_empty = Failed (FileNotFoundError (not_found_message sample_base))"
    by (simp add: start_def load_model_def path_exists_def fs_empty_def)
  have b: "proc_step sample_pipeline sample_base fs_empty Booting Boot
      (Failed (FileNotFoundError (not_found_message sample_base)))"
    using proc_step.boot [of sample_pipeline sample_base fs_empty] s by simp
  show ?thesis by (rule run_cons [OF b run_nil])
qed

section \<open>Properties of the process\<close>

text \<open>C7. The model every serving state uses is the one \<open>load_model\<close> returned at
  start-up: no request replaces or changes it (section 5 of the specification).\<close>

theorem run_serving_model_is_loaded:
  assumes "run deser b fs Booting es (Serving M)"
  shows "load_model deser b fs = Inr M"
  using run_agrees [OF assms] by simp

theorem run_serving_model_is_loaded_witness:
  "run sample_pipeline sample_base fs_both Booting
     [Boot, Served get_api (Some \<lparr>status = 405, resp_body = ErrorPage 405\<rparr>)] (Serving bang_is_spam) \<and>
   load_model sample_pipeline sample_base fs_both = Inr bang_is_spam"
  using sample_run run_serving_model_is_loaded [OF sample_run] by simp

text \<open>C8. When start-up fails, the process answers no request: every run from boot
  contains no request, and ends before boot or in the failed state (section 4.1).\<close>

theorem failed_start_serves_nothing:
  assumes "load_model deser b fs = Inl e" and "run deser b fs Booting es q"
  shows "filter is_served es = [] \<and> (q = Booting \<or> q = Failed e)"
proof -
  from run_from_Booting [OF assms(2)] show ?thesis
  proof (elim disjE exE conjE)
    fix es' assume "es = Boot # es'" and "run deser b fs (start deser b fs) es' q"
    with assms(1) show ?thesis by (auto simp: start_def dest: run_from_Failed)
  qed simp
qed

theorem failed_start_serves_nothing_witness:
  "load_model sample_pipeline sample_base fs_empty = Inl (FileNotFoundError (not_found_message sample_base)) \<and>
   run sample_pipeline sample_base fs_empty Booting [Boot] (Failed (FileNotFoundError (not_found_message sample_base))) \<and>
   filter is_served [Boot] = []"
proof -
  have l: "load_model sample_pipeline sample_base fs_empty = Inl (FileNotFoundError (not_found_message sample_base))"
    by (simp add: load_model_def path_exists_def fs_empty_def)
  show ?thesis using l sample_failed_run failed_start_serves_nothing [OF l sample_failed_run] by simp
qed

text \<open>C22. Every answer of a run is the answer \<open>dispatch\<close> gives to its request with the
  model loaded at start-up and two ordered clock readings: requests are independent and
  share nothing but the model.\<close>

theorem run_answers_from_loaded_model:
  assumes "run deser b fs Booting es q" and "Served req resp \<in> set es"
  shows "\<exists>M t_start t_end. load_model deser b fs = Inr M \<and> t_start \<le> t_end \<and>
           resp = dispatch M t_start t_end req"
  using run_served [OF assms] .

theorem run_answers_from_loaded_model_witness:
  "Served get_api (Some \<lparr>status = 405, resp_body = ErrorPage 405\<rparr>) \<in>
     set [Boot, Served get_api (Some \<lparr>status = 405, resp_body = ErrorPage 405\<rparr>)] \<and>
   (\<exists>M t_start t_end. load_model sample_pipeline sample_base fs_both = Inr M \<and> t_start \<le> t_end \<and>
      Some \<lparr>status = 405, resp_body = ErrorPage 405\<rparr> = dispatch M t_start t_end get_api)"
proof -
  have m: "Served get_api (Some \<lparr>status = 405, resp_body = ErrorPage 405\<rparr>) \<in>
     set [Boot, Served get_api (Some \<lparr>status = 405, resp_body = ErrorPage 405\<rparr>)]" by simp
  show ?thesis using m run_answers_from_loaded_model [OF sample_run m] by blast
qed

text \<open>C23. The loader runs exactly once: a run from boot begins with the boot and has no
  other.\<close>

theorem run_boots_once:
  assumes "run deser b fs Booting es q" and "es \<noteq> []"
  shows "hd es = Boot \<and> Boot \<notin> set (tl es)"
proof -
  from run_from_Booting [OF assms(1)] assms(2) obtain es' where
    es: "es = Boot # es'" and r: "run deser b fs (start deser b fs) es' q"
    by auto
  have "Boot \<notin> set es'"
  proof (cases "load_model deser b fs")
    case (Inl e)
    with r show ?thesis by (auto simp: start_def dest: run_from_Failed)
  next
    case (Inr M)
    with r show ?thesis by (auto simp: start_def dest: run_from_Serving_no_boot)
  qed
  with es show ?thesis by simp
qed

theorem run_boots_once_witness:
  "[Boot, Served get_api (Some \<lparr>status = 405, resp_body = ErrorPage 405\<rparr>)] \<noteq> [] \<and>
   hd [Boot, Served get_api (Some \<lparr>status = 405, resp_body = ErrorPage 405\<rparr>)] = Boot"
proof -
  have ne: "[Boot, Served get_api (Some \<lparr>status = 405, resp_body = ErrorPage 405\<rparr>)] \<noteq> []" by simp
  show ?thesis using ne run_boots_once [OF sample_run ne] by simp
qed

end
