(* ===== verification/Spec2Isabelle.thy ===== *)
theory Spec2Isabelle
  imports Server
begin

text \<open>
  \<^bold>\<open>A verification model of the spam/ham prediction web service\<close>
  (\<open>src/app.py\<close>, one Flask module).

  \<^bold>\<open>The program.\<close> At import, \<open>load_model\<close> (lines 18-30) looks for the model artifact
  at \<open>Model/spam_classifier.joblib\<close>, then \<open>Model/spam_classifier.pkl\<close>, loads the
  first that exists with \<open>joblib.load\<close> and stores it in the module global \<open>MODEL\<close>
  (line 33); when neither exists it raises \<open>FileNotFoundError\<close> and the process does not
  start. The Flask app limits request bodies to 1 MiB (line 36). \<open>_predict_one\<close>
  (lines 39-76) trims the message, rejects an empty or over-long one, and otherwise calls
  \<open>MODEL.predict\<close>, the optional \<open>MODEL.predict_proba\<close> (any \<open>Exception\<close> of it
  degrading the probability to \<open>None\<close>), times the two calls and returns a result
  dictionary. \<open>api_predict\<close> (lines 84-90) reads the JSON body, passes its
  \<open>message\<close> to \<open>_predict_one\<close> and answers 200 or 400; \<open>index\<close> (lines 79-81)
  renders a page.

  \<^bold>\<open>The theories\<close> (each imports the ones above it that it uses).
  \<^item> \<open>Prelude\<close>: Python strings as code-point lists (\<open>pystr\<close>), the exceptions
    (\<open>exn\<close>, \<open>is_Exception\<close>), exception propagation (\<open>bind_exn\<close>) and
    \<open>except Exception\<close> (\<open>catch_Exception\<close>), list subscripts (\<open>py_index\<close>).
  \<^item> \<open>PyStr\<close>: \<open>str.strip()\<close> (\<open>py_strip\<close>, with CPython's whitespace table
    \<open>py_isspace\<close>) and \<open>int()\<close> on a string (\<open>py_int_of_str\<close>). Lemmas: the result
    of \<open>strip\<close> is the unique stripped infix between two runs of whitespace;
    \<open>int\<close> reads back what \<open>str\<close> prints, whitespace around it allowed. These are
    library lemmas the service's claims use, not claims of their own.
  \<^item> \<open>Rounding\<close>: \<open>round(x, n)\<close> (\<open>py_round\<close>, ties to even) with its error bound,
    monotonicity and sign.
  \<^item> \<open>Json\<close>: the values of \<open>json.loads\<close> (\<open>json\<close>), truthiness, \<open>x or y\<close>,
    \<open>d.get(k, default)\<close> (\<open>py_get\<close>, the last duplicate key winning), \<open>x.strip()\<close>
    on any value.
  \<^item> \<open>Predictor\<close>: the model object as an interface record (\<open>predictor\<close>:
    \<open>predict\<close> and an optional \<open>predict_proba\<close>), \<open>int(pred)\<close> (\<open>py_int\<close>) and the
    probability block of lines 57-64 (\<open>spam_probability\<close>): its degradation to
    \<open>None\<close> (C31), the unchecked column 1 (C32), the range when the model's rows are
    probabilities (C33).
  \<^item> \<open>Service\<close>: \<open>_predict_one\<close> (\<open>predict_one\<close>, its classification path
    \<open>classify_message\<close>, the result dictionaries \<open>error_result\<close> and
    \<open>ok_result\<close>) and the contract of section 4.2 of the specification
    (\<open>spec_predict\<close> on \<open>verdict\<close>s). Claims: refinement of the contract (C1), the
    two rejections (C3, C4), the shape of every result (C5, C6), when it raises (C15),
    that invalid messages never reach the model (C16), trimming (C17), determinism up to
    latency (C18), the latency bound (C20), the key names (C29), models with the text labels \<open>"spam"\<close>/\<open>"ham"\<close> (C30) and
    with numeric string labels (C34), both for every model.
  \<^item> \<open>Http\<close>: requests and responses, \<open>get_json(silent=True)\<close> with the body limit
    (\<open>get_json_silent\<close>), \<open>api_predict\<close>, Flask's conversion of exceptions
    (\<open>flask_response\<close>) and the routes (\<open>dispatch\<close>). Claims: status 200/400 (C12),
    a missing message (C13), 413 for a large JSON body (C24), a non-JSON body (C25),
    500 for a non-object body or a non-string message (C26, C27), other routes (C28).
  \<^item> \<open>Loader\<close>: the artifact paths (lines 11-15) and \<open>load_model\<close> (lines 18-30) over
    a file-system map, the deserialiser of \<open>joblib.load\<close> a parameter. Claims: the
    \<open>.joblib\<close> priority (C9), the \<open>.pkl\<close> fallback (C10), the error naming both
    paths (C11), no fallback from a corrupt \<open>.joblib\<close> (C21).
  \<^item> \<open>Server\<close>: the process as an inductive step relation \<open>proc_step\<close> (boot by
    \<open>MODEL = load_model()\<close>, then requests answered by \<open>dispatch\<close>) and its runs
    \<open>run\<close>. Claims, by rule induction: the model in use is the loaded one (C7), a failed
    start serves nothing (C8), every answer is \<open>dispatch\<close>'s with that model (C22), one
    boot (C23).
  \<^item> This theory: properties of whole runs, which combine the theories above: the
    end-to-end refinement of the contract (C2), well-formed JSON answers (C14), equal
    answers to equal requests up to latency (C19).

  \<^bold>\<open>Modelling choices.\<close> Every theorem about the service holds for every model object:
  the predictor is a parameter, and so is the deserialiser of the artifact. The clock is
  the two values of \<open>time.perf_counter()\<close>, passed in, ordered in a run. Floats are
  reals, so rounding is exact and NaN and infinities are not represented. \<open>int()\<close> on a
  string reads ASCII digits only (CPython also accepts other Unicode decimal digits, and
  refuses more than 4300 digits). Flask and Werkzeug are modelled at version 2.3: a
  non-JSON body is not read by \<open>get_json(silent=True)\<close>; a JSON body over the limit
  raises 413 when it is read; any other \<open>Exception\<close> gives the 500 page, and one that
  does not derive from \<open>Exception\<close> no response. Concurrency: no request changes any
  state, so concurrent requests are independent steps of a run, ordered by their answers.
  No loop of the program is unbounded, and no definition needs fuel.

  \<^bold>\<open>Not modelled.\<close> The page of \<open>index\<close> (the template is not among the sources; the
  route is, with the template's name as its body); \<open>app.run\<close> under \<open>__main__\<close>
  (process I/O); \<open>Path.exists\<close> failing on a permission error; a file changing between
  \<open>exists\<close> and \<open>joblib.load\<close>; a broken symbolic link at an artifact path (for
  which \<open>exists\<close> is false); the internals of the scikit-learn pipeline. Flask's
  \<open>/static/<filename>\<close> route is not a route of this program: Flask registers it only
  when the application's \<open>static\<close> folder exists, and \<open>src/\<close> has none, so
  \<open>dispatch\<close> answers such paths 404 as Flask does.

  \<^bold>\<open>Plan.\<close> Next: the response encoding of \<open>jsonify\<close> (key order, the float format
  of \<open>latency_ms\<close> and \<open>spam_probability\<close>), a byte-level model of the body length
  against the 1 MiB limit, and the \<open>HEAD\<close>/\<open>OPTIONS\<close> answers.
\<close>

text \<open>The request of scenario 3 of section 8, posted as JSON.\<close>

definition post_win :: request where
  "post_win = post_json (Some (JDict [(py ''message'', JStr win_msg)])) 40"

section \<open>Lemmas\<close>

lemma dispatch_post_win:
  "dispatch bang_is_spam t0 t1 post_win =
     Some \<lparr>status = 200, resp_body = JsonBody (ok_result ''SPAM'' 1 (Some (9/10)) (py_round ((t1 - t0) * 1000) 2))\<rparr>"
  by (simp add: eval_http eval_service post_win_def win_msg_def bang_is_spam_def dict_lookup_def)

lemma sample_post_run:
  "run sample_pipeline sample_base fs_both Booting
     [Boot,
      Served post_win (Some \<lparr>status = 200, resp_body = JsonBody (ok_result ''SPAM'' 1 (Some (9/10)) 1000)\<rparr>),
      Served post_win (Some \<lparr>status = 200, resp_body = JsonBody (ok_result ''SPAM'' 1 (Some (9/10)) 500)\<rparr>)]
     (Serving bang_is_spam)"
proof -
  have s: "start sample_pipeline sample_base fs_both = Serving bang_is_spam"
    by (simp add: start_def load_model_def path_exists_def fs_both_def sample_pipeline_def)
  have b: "proc_step sample_pipeline sample_base fs_both Booting Boot (Serving bang_is_spam)"
    using proc_step.boot [of sample_pipeline sample_base fs_both] s by simp
  have r1: "py_round 1000 2 = 1000" and r2: "py_round 500 2 = 500"
    by (simp_all add: py_round_def round_half_even_def)
  have sv1: "proc_step sample_pipeline sample_base fs_both (Serving bang_is_spam)
      (Served post_win (Some \<lparr>status = 200, resp_body = JsonBody (ok_result ''SPAM'' 1 (Some (9/10)) 1000)\<rparr>))
      (Serving bang_is_spam)"
    using proc_step.serve [where deser = sample_pipeline and base_dir = sample_base and fs = fs_both
      and t_start = 1 and t_end = 2 and M = bang_is_spam and req = post_win]
    by (simp add: dispatch_post_win r1)
  have sv2: "proc_step sample_pipeline sample_base fs_both (Serving bang_is_spam)
      (Served post_win (Some \<lparr>status = 200, resp_body = JsonBody (ok_result ''SPAM'' 1 (Some (9/10)) 500)\<rparr>))
      (Serving bang_is_spam)"
    using proc_step.serve [where deser = sample_pipeline and base_dir = sample_base and fs = fs_both
      and t_start = 3 and t_end = "7/2" and M = bang_is_spam and req = post_win]
    by (simp add: dispatch_post_win r2)
  show ?thesis by (rule run_cons [OF b run_cons [OF sv1 run_cons [OF sv2 run_nil]]])
qed

section \<open>Properties that span the components\<close>

text \<open>C14. In every run of the process, every JSON answer is a 400 answer with one of
  the two failure dictionaries, or a 200 answer with a success dictionary whose label is
  \<open>"SPAM"\<close> exactly for prediction 1 and whose latency is not negative.\<close>

theorem run_json_answers_wf:
  assumes "run deser b fs Booting es q"
    and "Served req (Some \<lparr>status = st, resp_body = JsonBody r\<rparr>) \<in> set es"
  shows "(st = 400 \<and> (r = error_result ''Message is empty.'' \<or>
                      r = error_result ''Message too long (max 5000 characters).'')) \<or>
         (st = 200 \<and> (\<exists>p sp lat. r = ok_result (if p = 1 then ''SPAM'' else ''HAM'') p sp lat \<and> 0 \<le> lat))"
proof -
  obtain M t0 t1 where t: "t0 \<le> t1"
    and d: "Some \<lparr>status = st, resp_body = JsonBody r\<rparr> = dispatch M t0 t1 req"
    using run_served [OF assms] by blast
  have "api_predict M t0 t1 req = Inr (r, st)"
    using d [symmetric] by (rule dispatch_JsonBody)
  moreover have "0 \<le> py_round ((t1 - t0) * 1000) 2"
    using t by (simp add: py_round_nonneg)
  ultimately show ?thesis
    using api_predict_Inr_cases by blast
qed

theorem run_json_answers_wf_witness:
  "Served post_win (Some \<lparr>status = 200, resp_body = JsonBody (ok_result ''SPAM'' 1 (Some (9/10)) 1000)\<rparr>) \<in> set [Boot, Served post_win (Some \<lparr>status = 200, resp_body = JsonBody (ok_result ''SPAM'' 1 (Some (9/10)) 1000)\<rparr>), Served post_win (Some \<lparr>status = 200, resp_body = JsonBody (ok_result ''SPAM'' 1 (Some (9/10)) 500)\<rparr>)] \<and>
   (\<exists>p sp lat. ok_result ''SPAM'' 1 (Some (9/10)) 1000 = ok_result (if p = 1 then ''SPAM'' else ''HAM'') p sp lat \<and>
      0 \<le> lat)"
proof -
  have m: "Served post_win (Some \<lparr>status = 200, resp_body = JsonBody (ok_result ''SPAM'' 1 (Some (9/10)) 1000)\<rparr>) \<in> set [Boot, Served post_win (Some \<lparr>status = 200, resp_body = JsonBody (ok_result ''SPAM'' 1 (Some (9/10)) 1000)\<rparr>), Served post_win (Some \<lparr>status = 200, resp_body = JsonBody (ok_result ''SPAM'' 1 (Some (9/10)) 500)\<rparr>)]" by simp
  show ?thesis using m run_json_answers_wf [OF sample_post_run m] by simp
qed

text \<open>C19. In every run, two answers to the same request agree on everything but the
  latency: the service is idempotent for a fixed model (section 8).\<close>

theorem run_answers_consistent:
  assumes "run deser b fs Booting es q"
    and "Served req resp1 \<in> set es" and "Served req resp2 \<in> set es"
  shows "response_core resp1 = response_core resp2"
proof -
  obtain M t0 t1 where m: "load_model deser b fs = Inr M" and r1: "resp1 = dispatch M t0 t1 req"
    using run_served [OF assms(1,2)] by blast
  obtain M' t0' t1' where m': "load_model deser b fs = Inr M'" and r2: "resp2 = dispatch M' t0' t1' req"
    using run_served [OF assms(1,3)] by blast
  from m m' have "M' = M" by simp
  with r1 r2 show ?thesis by (simp add: dispatch_core [of M t0 t1 req t0' t1'])
qed

theorem run_answers_consistent_witness:
  "Served post_win (Some \<lparr>status = 200, resp_body = JsonBody (ok_result ''SPAM'' 1 (Some (9/10)) 1000)\<rparr>) \<in> set [Boot, Served post_win (Some \<lparr>status = 200, resp_body = JsonBody (ok_result ''SPAM'' 1 (Some (9/10)) 1000)\<rparr>), Served post_win (Some \<lparr>status = 200, resp_body = JsonBody (ok_result ''SPAM'' 1 (Some (9/10)) 500)\<rparr>)] \<and>
   Served post_win (Some \<lparr>status = 200, resp_body = JsonBody (ok_result ''SPAM'' 1 (Some (9/10)) 500)\<rparr>) \<in> set [Boot, Served post_win (Some \<lparr>status = 200, resp_body = JsonBody (ok_result ''SPAM'' 1 (Some (9/10)) 1000)\<rparr>), Served post_win (Some \<lparr>status = 200, resp_body = JsonBody (ok_result ''SPAM'' 1 (Some (9/10)) 500)\<rparr>)] \<and>
   response_core (Some \<lparr>status = 200, resp_body = JsonBody (ok_result ''SPAM'' 1 (Some (9/10)) 1000)\<rparr>) = response_core (Some \<lparr>status = 200, resp_body = JsonBody (ok_result ''SPAM'' 1 (Some (9/10)) 500)\<rparr>)"
proof -
  have m1: "Served post_win (Some \<lparr>status = 200, resp_body = JsonBody (ok_result ''SPAM'' 1 (Some (9/10)) 1000)\<rparr>) \<in> set [Boot, Served post_win (Some \<lparr>status = 200, resp_body = JsonBody (ok_result ''SPAM'' 1 (Some (9/10)) 1000)\<rparr>), Served post_win (Some \<lparr>status = 200, resp_body = JsonBody (ok_result ''SPAM'' 1 (Some (9/10)) 500)\<rparr>)]" by simp
  have m2: "Served post_win (Some \<lparr>status = 200, resp_body = JsonBody (ok_result ''SPAM'' 1 (Some (9/10)) 500)\<rparr>) \<in> set [Boot, Served post_win (Some \<lparr>status = 200, resp_body = JsonBody (ok_result ''SPAM'' 1 (Some (9/10)) 1000)\<rparr>), Served post_win (Some \<lparr>status = 200, resp_body = JsonBody (ok_result ''SPAM'' 1 (Some (9/10)) 500)\<rparr>)]" by simp
  show ?thesis using m1 m2 run_answers_consistent [OF sample_post_run m1 m2] by simp
qed

text \<open>C2. End to end: in every run, the answer to a JSON POST of \<open>{"message": s}\<close>
  within the size limit carries the verdict of the specification's contract for the model
  loaded at start-up, with status 200 exactly for a classification and 400 exactly for a
  rejection.\<close>

theorem run_post_refines_spec:
  assumes "run deser b fs Booting es q"
    and "Served (post_json (Some (JDict [(py ''message'', JStr s)])) n) resp \<in> set es"
    and "n \<le> max_content_length"
    and "load_model deser b fs = Inr M"
    and "py_strip s \<noteq> [] \<and> length (py_strip s) \<le> 5000 \<longrightarrow> implements M cls prob (py_strip s)"
  shows "\<exists>st r. resp = Some \<lparr>status = st, resp_body = JsonBody r\<rparr> \<and>
           verdict_of r = Some (spec_predict cls prob s) \<and>
           (st = 200 \<longleftrightarrow> (\<exists>l c p. spec_predict cls prob s = Classified l c p)) \<and>
           (st = 400 \<longleftrightarrow> (\<exists>e. spec_predict cls prob s = Rejected e))"
proof -
  obtain M' t0 t1 where m': "load_model deser b fs = Inr M'"
    and r: "resp = dispatch M' t0 t1 (post_json (Some (JDict [(py ''message'', JStr s)])) n)"
    using run_served [OF assms(1,2)] by blast
  from m' assms(4) have "M' = M" by simp
  with r have r: "resp = flask_response (api_predict M t0 t1 (post_json (Some (JDict [(py ''message'', JStr s)])) n))"
    by (simp add: dispatch_def post_json_def)
  have g: "get_json_silent (post_json (Some (JDict [(py ''message'', JStr s)])) n) = Inr (JDict [(py ''message'', JStr s)])"
    using assms(3) by (simp add: get_json_silent_def post_json_def)
  show ?thesis
    using r g predict_one_implements [OF assms(5), of t0 t1]
    by (auto simp: api_predict_def flask_response_def dict_lookup_def spec_predict_def Let_def
                   verdict_of_error_result verdict_of_ok_result)
qed

theorem run_post_refines_spec_witness:
  "load_model sample_pipeline sample_base fs_both = Inr bang_is_spam \<and>
   implements bang_is_spam bang_class bang_prob (py_strip win_msg) \<and>
   (\<exists>st r. Some \<lparr>status = 200, resp_body = JsonBody (ok_result ''SPAM'' 1 (Some (9/10)) 1000)\<rparr> = Some \<lparr>status = st, resp_body = JsonBody r\<rparr> \<and>
      verdict_of r = Some (spec_predict bang_class bang_prob win_msg) \<and>
      (st = 200 \<longleftrightarrow> (\<exists>l c p. spec_predict bang_class bang_prob win_msg = Classified l c p)) \<and>
      (st = 400 \<longleftrightarrow> (\<exists>e. spec_predict bang_class bang_prob win_msg = Rejected e)))"
proof -
  have l: "load_model sample_pipeline sample_base fs_both = Inr bang_is_spam"
    by (simp add: load_model_def path_exists_def fs_both_def sample_pipeline_def)
  have i: "implements bang_is_spam bang_class bang_prob (py_strip win_msg)"
    by (simp add: eval_service win_msg_def implements_def classifies_def bang_is_spam_def
                  bang_class_def bang_prob_def)
  then have h: "py_strip win_msg \<noteq> [] \<and> length (py_strip win_msg) \<le> 5000 \<longrightarrow>
      implements bang_is_spam bang_class bang_prob (py_strip win_msg)"
    by blast
  have m: "Served (post_json (Some (JDict [(py ''message'', JStr win_msg)])) 40) (Some \<lparr>status = 200, resp_body = JsonBody (ok_result ''SPAM'' 1 (Some (9/10)) 1000)\<rparr>) \<in> set [Boot, Served post_win (Some \<lparr>status = 200, resp_body = JsonBody (ok_result ''SPAM'' 1 (Some (9/10)) 1000)\<rparr>), Served post_win (Some \<lparr>status = 200, resp_body = JsonBody (ok_result ''SPAM'' 1 (Some (9/10)) 500)\<rparr>)]"
    by (simp add: post_win_def)
  have n: "(40::nat) \<le> max_content_length" by (simp add: max_content_length_def)
  show ?thesis using l i run_post_refines_spec [OF sample_post_run m n l h] by simp
qed

end
